theory Spec2Isabelle
  imports Complex_Main "HOL-Library.Code_Target_Nat"
begin

section \<open>Strings\<close>

text \<open>
  A JavaScript string is a sequence of UTF-16 code units; a code unit is a natural number.
  String literals of the source are written \<open>js ''...''\<close>. \<open>isWhiteSpace\<close> is the white space
  and line terminator set of ECMAScript, which is what \<open>trim\<close> strips and \<open>\s\<close> matches.

  \<open>String.prototype.toLowerCase\<close> belongs to the runtime, not to the repository. The functions
  of etymologyService.ts and cognateService.ts take it as their first argument \<open>lc\<close>, so that
  what is proved about them holds for the case folding of the runtime, whatever it does to
  Cyrillic, Greek or any other letter. \<open>toLowerCase\<close> below is the folding of the capital
  letters of ASCII and Latin-1 (\<open>A-Z\<close>, \<open>U+00C0-U+00DE\<close> without \<open>U+00D7\<close>), which agrees with
  the runtime on strings that have no capital letter above \<open>U+00FF\<close>; it is what the functions
  of etymonlineAPI.ts are written with here, and the value of \<open>lc\<close> in evaluated examples.
\<close>

type_synonym jstring = "nat list"

abbreviation js :: "string \<Rightarrow> jstring" where
  "js s \<equiv> map of_char s"

definition lowerUnit :: "nat \<Rightarrow> nat" where
  "lowerUnit c = (if (65 \<le> c \<and> c \<le> 90) \<or> (192 \<le> c \<and> c \<le> 222 \<and> c \<noteq> 215) then c + 32 else c)"

definition toLowerCase :: "jstring \<Rightarrow> jstring" where
  "toLowerCase s = map lowerUnit s"

definition isWhiteSpace :: "nat \<Rightarrow> bool" where
  "isWhiteSpace c = ((9 \<le> c \<and> c \<le> 13) \<or> c = 32 \<or> c = 160 \<or> c = 5760 \<or> (8192 \<le> c \<and> c \<le> 8202)
     \<or> c = 8232 \<or> c = 8233 \<or> c = 8239 \<or> c = 8287 \<or> c = 12288 \<or> c = 65279)"

definition trim :: "jstring \<Rightarrow> jstring" where
  "trim s = rev (dropWhile isWhiteSpace (rev (dropWhile isWhiteSpace s)))"

definition startsWith :: "jstring \<Rightarrow> jstring \<Rightarrow> bool" where
  "startsWith s p = (take (length p) s = p)"

definition endsWith :: "jstring \<Rightarrow> jstring \<Rightarrow> bool" where
  "endsWith s p = (length p \<le> length s \<and> drop (length s - length p) s = p)"

fun includesStr :: "jstring \<Rightarrow> jstring \<Rightarrow> bool" where
  "includesStr [] p = (p = [])"
| "includesStr (c # s) p = (startsWith (c # s) p \<or> includesStr s p)"

text \<open>\<open>s.slice(0, -n)\<close> for \<open>n > 0\<close>.\<close>

definition sliceEnd :: "jstring \<Rightarrow> nat \<Rightarrow> jstring" where
  "sliceEnd s n = take (length s - n) s"

text \<open>\<open>a || b\<close> on strings: the empty string is falsy.\<close>

definition orElse :: "jstring \<Rightarrow> jstring \<Rightarrow> jstring" where
  "orElse a b = (if a = [] then b else a)"

text \<open>The comparison \<open>s < t\<close> of two strings: by code units, a proper prefix is smaller.\<close>

fun stringLess :: "jstring \<Rightarrow> jstring \<Rightarrow> bool" where
  "stringLess [] [] = False"
| "stringLess [] (b # t) = True"
| "stringLess (a # s) [] = False"
| "stringLess (a # s) (b # t) = (a < b \<or> (a = b \<and> stringLess s t))"

text \<open>
  \<open>Array.prototype.sort\<close> with a comparator is stable: elements the comparator does not
  separate keep their order. The model is the stable insertion sort for the comparator
  (negative or zero: the first argument stays in front).
\<close>

fun insertBy :: "('a \<Rightarrow> 'a \<Rightarrow> real) \<Rightarrow> 'a \<Rightarrow> 'a list \<Rightarrow> 'a list" where
  "insertBy cmp a [] = [a]"
| "insertBy cmp a (b # bs) = (if cmp a b \<le> 0 then a # b # bs else b # insertBy cmp a bs)"

definition sortBy :: "('a \<Rightarrow> 'a \<Rightarrow> real) \<Rightarrow> 'a list \<Rightarrow> 'a list" where
  "sortBy cmp xs = foldr (insertBy cmp) xs []"

text \<open>\<open>Array.prototype.indexOf\<close>: the first position of an element, \<open>None\<close> for \<open>-1\<close>.\<close>

fun indexOf :: "'a list \<Rightarrow> 'a \<Rightarrow> nat option" where
  "indexOf [] x = None"
| "indexOf (y # ys) x = (if y = x then Some 0 else map_option Suc (indexOf ys x))"

section \<open>Numbers and property lookups\<close>

text \<open>
  A confidence is a JavaScript number: a real number, an infinity or NaN. Sums and
  differences of real numbers are exact here; the rounding of the floating-point arithmetic
  of the runtime is not modelled. \<open>numLess\<close> is \<open><\<close> (false whenever an argument is NaN),
  \<open>truthy\<close> the test of \<open>if (x)\<close> and \<open>x || 0\<close> (0 and NaN are falsy), \<open>numPlus x y\<close> is \<open>x + y\<close> for
  a number \<open>y\<close> that is real, \<open>mathMin x y\<close> is \<open>Math.min(x, y)\<close> for such \<open>y\<close>, and \<open>numMinus\<close> is \<open>-\<close>.
\<close>

datatype jsnumber = Finite real | PlusInfinity | MinusInfinity | NaN

fun numLess :: "jsnumber \<Rightarrow> jsnumber \<Rightarrow> bool" where
  "numLess (Finite a) (Finite b) = (a < b)"
| "numLess (Finite a) PlusInfinity = True"
| "numLess MinusInfinity (Finite b) = True"
| "numLess MinusInfinity PlusInfinity = True"
| "numLess _ _ = False"

definition numGreater :: "jsnumber \<Rightarrow> jsnumber \<Rightarrow> bool" where
  "numGreater x y = numLess y x"

fun truthy :: "jsnumber \<Rightarrow> bool" where
  "truthy (Finite a) = (a \<noteq> 0)"
| "truthy PlusInfinity = True"
| "truthy MinusInfinity = True"
| "truthy NaN = False"

definition orZero :: "jsnumber \<Rightarrow> jsnumber" where
  "orZero x = (if truthy x then x else Finite 0)"

fun numPlus :: "jsnumber \<Rightarrow> real \<Rightarrow> jsnumber" where
  "numPlus (Finite a) b = Finite (a + b)"
| "numPlus x b = x"

fun mathMin :: "jsnumber \<Rightarrow> real \<Rightarrow> jsnumber" where
  "mathMin (Finite a) b = Finite (min a b)"
| "mathMin PlusInfinity b = Finite b"
| "mathMin MinusInfinity b = MinusInfinity"
| "mathMin NaN b = NaN"

fun numMinus :: "jsnumber \<Rightarrow> jsnumber \<Rightarrow> jsnumber" where
  "numMinus (Finite a) (Finite b) = Finite (a - b)"
| "numMinus (Finite a) PlusInfinity = MinusInfinity"
| "numMinus (Finite a) MinusInfinity = PlusInfinity"
| "numMinus PlusInfinity (Finite b) = PlusInfinity"
| "numMinus PlusInfinity MinusInfinity = PlusInfinity"
| "numMinus MinusInfinity (Finite b) = MinusInfinity"
| "numMinus MinusInfinity PlusInfinity = MinusInfinity"
| "numMinus _ _ = NaN"

text \<open>
  What \<open>sort\<close> reads from the number its comparator returns: NaN counts as \<open>+0\<close>, and only
  the sign matters.
\<close>

fun comparatorValue :: "jsnumber \<Rightarrow> real" where
  "comparatorValue (Finite a) = a"
| "comparatorValue PlusInfinity = 1"
| "comparatorValue MinusInfinity = - 1"
| "comparatorValue NaN = 0"

text \<open>
  The priority tables of the service are object literals, and \<open>table[key]\<close> also finds what
  every object inherits from \<open>Object.prototype\<close>: for the twelve names below the lookup does
  not give \<open>undefined\<close> but a function (for \<open>__proto__\<close> the prototype object), which is truthy,
  so that \<open>table[key] || 0\<close> is that member and not 0.
\<close>

definition objectPrototypeNames :: "jstring list" where
  "objectPrototypeNames =
    [js ''constructor'', js ''toString'', js ''toLocaleString'', js ''valueOf'',
     js ''hasOwnProperty'', js ''isPrototypeOf'', js ''propertyIsEnumerable'', js ''__proto__'',
     js ''__defineGetter__'', js ''__defineSetter__'', js ''__lookupGetter__'', js ''__lookupSetter__'']"

datatype jsvalue = Number nat | Member jstring

definition lookupOr0 :: "(jstring \<times> nat) list \<Rightarrow> jstring \<Rightarrow> jsvalue" where
  "lookupOr0 table k =
    (case map_of table k of
       Some v \<Rightarrow> Number v
     | None \<Rightarrow> if k \<in> set objectPrototypeNames then Member k else Number 0)"

text \<open>
  The string an operand of \<open>+\<close> becomes when the other one is not a number: the decimal
  numeral of a number, and for an inherited member the text Node.js prints for it.
\<close>

fun decimal :: "nat \<Rightarrow> jstring" where
  "decimal n = (if n < 10 then [48 + n] else decimal (n div 10) @ [48 + n mod 10])"

definition memberText :: "jstring \<Rightarrow> jstring" where
  "memberText k =
    (if k = js ''__proto__'' then js ''[object Object]''
     else js ''function '' @ (if k = js ''constructor'' then js ''Object'' else k)
            @ js ''() { [native code] }'')"

declare decimal.simps [simp del]

fun valueText :: "jsvalue \<Rightarrow> jstring" where
  "valueText (Number n) = decimal n"
| "valueText (Member k) = memberText k"

section \<open>Data model of the etymology service\<close>

text \<open>
  \<open>Word\<close> and the relationship of a \<open>NormalizedConnection\<close> (etymologyService.ts). The fields
  \<open>id\<close>, \<open>partOfSpeech\<close>, \<open>definition\<close>, \<open>notes\<close>, \<open>origin\<close> and \<open>sharedRoot\<close> are carried
  along by the service and read by none of the functions below; they are left out.
  \<open>priority\<close> and \<open>source\<close> are optional in the source (\<open>None\<close> is \<open>undefined\<close>).
\<close>

record Word =
  wtext :: jstring
  wlanguage :: jstring

record Relationship =
  rtype :: jstring
  confidence :: jsnumber
  priority :: "jstring option"
  source :: "jstring option"

record NormalizedConnection =
  word :: Word
  relationship :: Relationship

section \<open>Shared root utilities (shared/utils/etymologyUtils)\<close>

definition romanceEndings :: "jstring list" where
  "romanceEndings =
    [js ''ci'' @ [243] @ js ''n'', js ''si'' @ [243] @ js ''n'', js ''tion'', js ''sion'', js ''zione'',
     js ''sione'', [231, 227] @ js ''o'', js ''s'' @ [227] @ js ''o'',
     js ''idad'', js ''it'' @ [233], js ''it'' @ [224], js ''idade'', js ''tate'', js ''dad'',
     js ''oso'', js ''osa'', js ''eux'', js ''euse'', js ''oso'', js ''osa'',
     js ''ico'', js ''ica'', js ''ique'', js ''ico'', js ''ica'',
     js ''al'', js ''ale'', js ''ar'', js ''er'', js ''ir'', js ''are'', js ''ere'', js ''ire'']"

definition germanicEndings :: "jstring list" where
  "germanicEndings =
    [js ''ing'', js ''ed'', js ''er'', js ''est'', js ''ly'', js ''ness'', js ''ment'',
     js ''en'', js ''an'', js ''ung'', js ''heit'', js ''keit'', js ''lich'', js ''isch'']"

text \<open>The loop of \<open>getRomanceRoot\<close> and \<open>getGermanicRoot\<close>: the first ending that fits is cut.\<close>

fun stripFirstEnding :: "jstring list \<Rightarrow> jstring \<Rightarrow> jstring" where
  "stripFirstEnding [] w = w"
| "stripFirstEnding (ending # endings) w =
     (if endsWith w ending \<and> length w > length ending + 2 then sliceEnd w (length ending)
      else stripFirstEnding endings w)"

definition getRomanceRoot :: "jstring \<Rightarrow> jstring" where
  "getRomanceRoot w = stripFirstEnding romanceEndings w"

definition getGermanicRoot :: "jstring \<Rightarrow> jstring" where
  "getGermanicRoot w = stripFirstEnding germanicEndings w"

text \<open>
  \<open>areRootsRelated\<close>: the loop counts the positions below the shorter length where the roots
  differ and returns false as soon as the count exceeds \<open>maxDiff\<close>.
\<close>

fun countDifferences :: "jstring \<Rightarrow> jstring \<Rightarrow> nat" where
  "countDifferences (a # r1) (b # r2) = (if a \<noteq> b then 1 else 0) + countDifferences r1 r2"
| "countDifferences _ _ = 0"

definition areRootsRelated :: "jstring \<Rightarrow> jstring \<Rightarrow> bool" where
  "areRootsRelated root1 root2 =
    (if root1 = root2 then True
     else if (if length root1 \<le> length root2 then length root2 - length root1
              else length root1 - length root2) > 2 then False
     else countDifferences root1 root2 \<le> min (length root1) (length root2) div 3)"

section \<open>Derivative filters (etymologyService.ts, cognateService.ts)\<close>

text \<open>
  The pattern table of \<open>isCrossLanguageDerivative\<close>: an English ending and the alternatives of
  the Romance regular expression, each anchored at the end of the word. No word ends in two
  alternatives of one row, so \<open>replace\<close> cuts the one alternative that matches.
\<close>

definition latinPatterns :: "(jstring \<times> jstring list) list" where
  "latinPatterns =
    [(js ''tion'', [js ''ci'' @ [243] @ js ''n'', js ''tion'', js ''zione'']),
     (js ''sion'', [js ''si'' @ [243] @ js ''n'', js ''sion'', js ''sione'']),
     (js ''ity'', [js ''idad'', js ''it'' @ [233], js ''it'' @ [224]]),
     (js ''ous'', [js ''oso'', js ''eux'', js ''oso'']),
     (js ''ic'', [js ''ico'', js ''ique'', js ''ico'']),
     (js ''al'', [js ''al'', js ''al'', js ''ale''])]"

fun cutFirstSuffix :: "jstring list \<Rightarrow> jstring \<Rightarrow> jstring option" where
  "cutFirstSuffix [] w = None"
| "cutFirstSuffix (e # es) w =
     (if endsWith w e then Some (sliceEnd w (length e)) else cutFirstSuffix es w)"

definition patternRelates :: "jstring \<Rightarrow> jstring \<Rightarrow> jstring \<times> jstring list \<Rightarrow> bool" where
  "patternRelates src target pat =
    (case pat of (en, romance) \<Rightarrow>
      (if endsWith src en then
         (case cutFirstSuffix romance target of
            None \<Rightarrow> False
          | Some targetBase \<Rightarrow> areRootsRelated (sliceEnd src (length en)) targetBase)
       else False))"

definition romanceLanguages :: "jstring list" where
  "romanceLanguages = [js ''es'', js ''fr'', js ''it'', js ''pt'', js ''ca'', js ''ro'']"

definition germanicLanguages :: "jstring list" where
  "germanicLanguages = [js ''en'', js ''de'', js ''nl'', js ''da'', js ''sv'', js ''no'']"

definition isCrossLanguageDerivative :: "jstring \<Rightarrow> jstring \<Rightarrow> jstring \<Rightarrow> jstring \<Rightarrow> bool" where
  "isCrossLanguageDerivative src target sourceLang targetLang =
    (let isSourceRomance = (sourceLang \<in> set romanceLanguages);
         isTargetRomance = (targetLang \<in> set romanceLanguages)
     in if isSourceRomance \<and> isTargetRomance \<and> getRomanceRoot src = getRomanceRoot target
           \<and> length (getRomanceRoot src) \<ge> 3 then True
        else if (sourceLang = js ''en'' \<or> sourceLang = js ''de'') \<and> isTargetRomance
           \<and> list_ex (patternRelates src target) latinPatterns then True
        else if sourceLang \<in> set germanicLanguages \<and> targetLang \<in> set germanicLanguages
           \<and> getGermanicRoot src = getGermanicRoot target \<and> length (getGermanicRoot src) \<ge> 3 then True
        else False)"

text \<open>
  The body of the suffix loops of \<open>isTrivialDerivative\<close> and \<open>isDerivative\<close>: the plain
  concatenation and the three spelling changes.
\<close>

definition inflects :: "jstring \<Rightarrow> jstring \<Rightarrow> jstring \<Rightarrow> bool" where
  "inflects base derived suffix =
    (derived = base @ suffix
     \<or> (suffix = js ''ies'' \<and> endsWith base (js ''y'') \<and> derived = sliceEnd base 1 @ js ''ies'')
     \<or> (suffix = js ''ed'' \<and> endsWith base (js ''e'') \<and> derived = base @ js ''d'')
     \<or> (suffix = js ''ing'' \<and> endsWith base (js ''e'') \<and> derived = sliceEnd base 1 @ js ''ing''))"

definition basicInflections :: "jstring list" where
  "basicInflections = [js ''ing'', js ''ed'', js ''s'', js ''es'', js ''ies'', js ''er'', js ''est'']"

definition clearDerivatives :: "jstring list" where
  "clearDerivatives = [js ''ly'', js ''ness'', js ''ment'']"

definition basicPrefixes :: "jstring list" where
  "basicPrefixes = [js ''un'', js ''dis'', js ''non'']"


definition isTrivialDerivative ::
  "(jstring \<Rightarrow> jstring) \<Rightarrow> jstring \<Rightarrow> jstring \<Rightarrow> jstring \<Rightarrow> jstring \<Rightarrow> bool" where
  "isTrivialDerivative lc sourceText targetText sourceLang targetLang =
    (let src = trim (lc sourceText);
         target = trim (lc targetText)
     in if src = target then True
        else if sourceLang \<noteq> targetLang then isCrossLanguageDerivative src target sourceLang targetLang
        else list_ex (inflects src target) basicInflections
           \<or> list_ex (\<lambda>suffix. target = src @ suffix) clearDerivatives
           \<or> list_ex (inflects target src) basicInflections
           \<or> list_ex (\<lambda>suffix. src = target @ suffix) clearDerivatives
           \<or> list_ex (\<lambda>prefix. target = prefix @ src \<or> src = prefix @ target) basicPrefixes)"

section \<open>Validators of the merge engine (etymologyService.ts)\<close>

definition sourcePriority :: "(jstring \<times> nat) list" where
  "sourcePriority = [(js ''etymonline.com'', 3), (js ''wiktionary'', 2), (js ''dictionary-api'', 1)]"

definition typePriority :: "(jstring \<times> nat) list" where
  "typePriority = [(js ''etymology'', 3), (js ''cognate'', 2), (js ''ancestor'', 2),
                   (js ''borrowing'', 1), (js ''related'', 0)]"

text \<open>
  \<open>getPriorityScore\<close> returns the sum \<open>(sourcePriority[source || ''] || 0) +
  (typePriority[relationshipType || ''] || 0)\<close>. It is a number when both operands are
  numbers; when one of them is an inherited member, \<open>+\<close> concatenates the two operands as
  strings.
\<close>

datatype score = Points nat | Text jstring

fun addValues :: "jsvalue \<Rightarrow> jsvalue \<Rightarrow> score" where
  "addValues (Number a) (Number b) = Points (a + b)"
| "addValues x y = Text (valueText x @ valueText y)"

definition getPriorityScore :: "jstring option \<Rightarrow> jstring \<Rightarrow> score" where
  "getPriorityScore src relationshipType =
    addValues (lookupOr0 sourcePriority (case src of None \<Rightarrow> [] | Some s \<Rightarrow> s))
              (lookupOr0 typePriority relationshipType)"

text \<open>
  \<open>a > b\<close> on two scores: numbers by value, strings by code units; a number and such a
  string are never in this relation, the string converts to NaN.
\<close>

fun scoreGreater :: "score \<Rightarrow> score \<Rightarrow> bool" where
  "scoreGreater (Points a) (Points b) = (a > b)"
| "scoreGreater (Text s) (Text t) = stringLess t s"
| "scoreGreater _ _ = False"

definition basicElements :: "jstring list" where
  "basicElements = [js ''fire'', js ''water'', js ''earth'', js ''air'', js ''wind'']"

definition colors :: "jstring list" where
  "colors = [js ''red'', js ''blue'', js ''green'', js ''yellow'', js ''black'', js ''white'',
             js ''brown'', js ''purple'', js ''orange'', js ''pink'']"

definition numbers :: "jstring list" where
  "numbers = [js ''one'', js ''two'', js ''three'', js ''four'', js ''five'', js ''six'',
              js ''seven'', js ''eight'', js ''nine'', js ''ten'']"

definition problematicPairs :: "(jstring \<times> jstring) list" where
  "problematicPairs = [(js ''water'', js ''fire''), (js ''fire'', js ''water''),
                       (js ''water'', js ''punjab''), (js ''punjab'', js ''water'')]"

definition pairMatches :: "jstring \<Rightarrow> jstring \<Rightarrow> jstring \<times> jstring \<Rightarrow> bool" where
  "pairMatches a b p = (case p of (p1, p2) \<Rightarrow> (a = p1 \<and> b = p2) \<or> (a = p2 \<and> b = p1))"

definition areSemanticallyUnrelated :: "(jstring \<Rightarrow> jstring) \<Rightarrow> jstring \<Rightarrow> jstring \<Rightarrow> bool" where
  "areSemanticallyUnrelated lc word1 word2 =
    (let word1Lower = lc word1;
         word2Lower = lc word2
     in if startsWith word1 (js ''*'') \<or> startsWith word2 (js ''*'') then False
        else if includesStr word1Lower (js ''proto'') \<or> includesStr word2Lower (js ''proto'') then False
        else
          (let word1IsElement = (word1Lower \<in> set basicElements);
               word2IsElement = (word2Lower \<in> set basicElements);
               word1IsColor = (word1Lower \<in> set colors);
               word2IsColor = (word2Lower \<in> set colors);
               word1IsNumber = (word1Lower \<in> set numbers);
               word2IsNumber = (word2Lower \<in> set numbers)
           in if (word1IsElement \<and> word2IsColor) \<or> (word1IsColor \<and> word2IsElement) then True
              else if (word1IsElement \<and> word2IsNumber) \<or> (word1IsNumber \<and> word2IsElement) then True
              else if (word1IsColor \<and> word2IsNumber) \<or> (word1IsNumber \<and> word2IsColor) then True
              else if startsWith word1 (js ''*'') \<or> startsWith word2 (js ''*'') then False
              else if includesStr (lc word1) (js ''proto'')
                      \<or> includesStr (lc word2) (js ''proto'') then False
              else list_ex (pairMatches word1Lower word2Lower) problematicPairs))"

definition indoEuropean :: "jstring list" where
  "indoEuropean = [js ''en'', js ''de'', js ''nl'', js ''sv'', js ''da'', js ''no'', js ''fr'', js ''es'',
                   js ''it'', js ''pt'', js ''ro'', js ''la'', js ''grc'', js ''gr'', js ''ru'', js ''pl'',
                   js ''cs'', js ''ga'', js ''cy'', js ''sa'']"

definition semitic :: "jstring list" where
  "semitic = [js ''ar'', js ''he'', js ''am'']"

definition sino :: "jstring list" where
  "sino = [js ''zh'', js ''ja'', js ''ko'']"

definition areLanguageCompatible :: "jstring \<Rightarrow> jstring \<Rightarrow> jstring \<Rightarrow> bool" where
  "areLanguageCompatible lang1 lang2 connectionType =
    (if includesStr lang1 (js ''pro'') \<or> includesStr lang2 (js ''pro'')
        \<or> lang1 = js ''ine-pro'' \<or> lang2 = js ''ine-pro'' then True
     else if connectionType = js ''etymology'' \<or> connectionType = js ''pie_root'' then True
     else if (lang1 \<in> set indoEuropean \<and> lang2 \<in> set indoEuropean)
          \<or> (lang1 \<in> set semitic \<and> lang2 \<in> set semitic)
          \<or> (lang1 \<in> set sino \<and> lang2 \<in> set sino) then True
     else if connectionType = js ''borrowing'' \<or> connectionType = js ''loan'' then True
     else False)"

text \<open>
  \<open>isSuspiciousCognate\<close> and \<open>isValidCognateConnection\<close> divide the number of distinct shared
  code units by the longer length. Where that length is 0 the source computes NaN and the
  comparison is false; in \<open>isSuspiciousCognate\<close> the length difference is then 0 as well, and
  \<open>isValidCognateConnection\<close> has returned before, so the quotient of HOL decides the same.
\<close>

definition commonChars :: "jstring \<Rightarrow> jstring \<Rightarrow> nat" where
  "commonChars a b = length (remdups (filter (\<lambda>c. c \<in> set b) a))"

definition lengthDiff :: "jstring \<Rightarrow> jstring \<Rightarrow> nat" where
  "lengthDiff a b = (if length a \<le> length b then length b - length a else length a - length b)"

definition isSuspiciousCognate ::
  "(jstring \<Rightarrow> jstring) \<Rightarrow> jstring \<Rightarrow> jstring \<Rightarrow> jstring \<Rightarrow> jstring \<Rightarrow> bool" where
  "isSuspiciousCognate lc word1 word2 lang1 lang2 =
    (let word1Clean = filter (\<lambda>c. 97 \<le> c \<and> c \<le> 122) (lc word1);
         word2Clean = filter (\<lambda>c. 97 \<le> c \<and> c \<le> 122) (lc word2)
     in lang1 \<noteq> lang2
        \<and> real (commonChars word1Clean word2Clean) / real (max (length word1Clean) (length word2Clean)) < 0.2
        \<and> lengthDiff word1Clean word2Clean > 3)"

text \<open>
  The minimum-confidence test is \<open>confidence < minConfidence\<close>: a confidence that is NaN is
  not below the minimum and passes.
\<close>

definition isValidEtymologicalConnection ::
  "(jstring \<Rightarrow> jstring) \<Rightarrow> NormalizedConnection \<Rightarrow> Word \<Rightarrow> bool" where
  "isValidEtymologicalConnection lc connection sourceWord =
    (let minConfidence = (if startsWith (wtext (word connection)) (js ''*'') then 0.4 else 0.5)
     in if numLess (confidence (relationship connection)) (Finite minConfidence) then False
        else if startsWith (wtext (word connection)) (js ''*'')
                \<or> wlanguage (word connection) = js ''ine-pro''
                \<or> includesStr (wlanguage (word connection)) (js ''pro'') then True
        else if areSemanticallyUnrelated lc (wtext sourceWord) (wtext (word connection)) then False
        else if \<not> areLanguageCompatible (wlanguage sourceWord) (wlanguage (word connection))
                   (rtype (relationship connection)) then False
        else if isSuspiciousCognate lc (wtext sourceWord) (wtext (word connection))
                   (wlanguage sourceWord) (wlanguage (word connection)) then False
        else True)"

section \<open>Deduplication (etymologyService.ts, deduplicateConnections)\<close>

text \<open>
  The loop keeps a map \<open>seen\<close> from keys to connections and the list \<open>result\<close>. A text that
  starts with \<open>*\<close> has its language overwritten in place with \<open>ine-pro\<close> before anything else
  is decided. \<open>result.indexOf(existing)\<close> compares object identity; every connection handed to
  the loop is a fresh object, and two connections of \<open>result\<close> never have the same key, so the
  first position holding an equal value is the position of the object.
\<close>

record DedupState =
  seen :: "jstring \<rightharpoonup> NormalizedConnection"
  result :: "NormalizedConnection list"

definition comparisonText :: "(jstring \<Rightarrow> jstring) \<Rightarrow> NormalizedConnection \<Rightarrow> jstring" where
  "comparisonText lc connection = lc (wtext (word connection))"

definition comparisonLang :: "(jstring \<Rightarrow> jstring) \<Rightarrow> NormalizedConnection \<Rightarrow> jstring" where
  "comparisonLang lc connection =
    (if startsWith (comparisonText lc connection) (js ''*'') then js ''ine-pro''
     else lc (orElse (wlanguage (word connection)) (js ''und'')))"

definition fixPieLanguage :: "(jstring \<Rightarrow> jstring) \<Rightarrow> NormalizedConnection \<Rightarrow> NormalizedConnection" where
  "fixPieLanguage lc connection =
    (if startsWith (comparisonText lc connection) (js ''*'')
     then connection\<lparr>word := (word connection)\<lparr>wlanguage := js ''ine-pro''\<rparr>\<rparr>
     else connection)"

definition dedupKey :: "(jstring \<Rightarrow> jstring) \<Rightarrow> NormalizedConnection \<Rightarrow> jstring" where
  "dedupKey lc connection = comparisonText lc connection @ js ''_'' @ comparisonLang lc connection"

definition isSelfReference :: "(jstring \<Rightarrow> jstring) \<Rightarrow> Word option \<Rightarrow> NormalizedConnection \<Rightarrow> bool" where
  "isSelfReference lc sourceWord connection =
    (case sourceWord of None \<Rightarrow> False
     | Some sw \<Rightarrow> comparisonText lc connection = lc (wtext sw)
                  \<and> comparisonLang lc connection = lc (wlanguage sw))"

definition isInvalid :: "(jstring \<Rightarrow> jstring) \<Rightarrow> Word option \<Rightarrow> NormalizedConnection \<Rightarrow> bool" where
  "isInvalid lc sourceWord connection =
    (case sourceWord of None \<Rightarrow> False
     | Some sw \<Rightarrow> \<not> isValidEtymologicalConnection lc (fixPieLanguage lc connection) sw)"

definition connectionScore :: "NormalizedConnection \<Rightarrow> score" where
  "connectionScore connection =
    getPriorityScore (source (relationship connection)) (rtype (relationship connection))"

definition replaceExisting ::
  "NormalizedConnection list \<Rightarrow> NormalizedConnection \<Rightarrow> NormalizedConnection \<Rightarrow> NormalizedConnection list" where
  "replaceExisting res existing connection =
    (case indexOf res existing of None \<Rightarrow> res | Some i \<Rightarrow> res[i := connection])"

definition dedupStep ::
  "(jstring \<Rightarrow> jstring) \<Rightarrow> Word option \<Rightarrow> DedupState \<Rightarrow> NormalizedConnection \<Rightarrow> DedupState" where
  "dedupStep lc sourceWord st connection =
    (if wtext (word connection) = [] then st
     else if isSelfReference lc sourceWord connection then st
     else if isInvalid lc sourceWord connection then st
     else
       (let key = dedupKey lc connection;
            fixed = fixPieLanguage lc connection
        in case seen st key of
             None \<Rightarrow> st\<lparr>seen := (seen st)(key \<mapsto> fixed), result := result st @ [fixed]\<rparr>
           | Some existing \<Rightarrow>
               (let existingConfidence = confidence (relationship existing);
                    newConfidence = confidence (relationship fixed);
                    existingPriority = connectionScore existing;
                    newPriority = connectionScore fixed
                in if scoreGreater newPriority existingPriority
                      \<or> (newPriority = existingPriority \<and> numGreater newConfidence existingConfidence)
                   then st\<lparr>seen := (seen st)(key \<mapsto> fixed),
                           result := replaceExisting (result st) existing fixed\<rparr>
                   else st)))"

definition deduplicateConnections ::
  "(jstring \<Rightarrow> jstring) \<Rightarrow> NormalizedConnection list \<Rightarrow> Word option \<Rightarrow> NormalizedConnection list" where
  "deduplicateConnections lc connections sourceWord =
    result (foldl (dedupStep lc sourceWord) \<lparr>seen = Map.empty, result = []\<rparr> connections)"

section \<open>The final sort (etymologyService.ts, findEtymologicalConnections)\<close>

definition priorityOrder :: "(jstring \<times> nat) list" where
  "priorityOrder = [(js ''high'', 3), (js ''medium'', 2), (js ''low'', 1)]"

definition priorityTier :: "NormalizedConnection \<Rightarrow> jsvalue" where
  "priorityTier c =
    lookupOr0 priorityOrder (case priority (relationship c) of None \<Rightarrow> [] | Some p \<Rightarrow> p)"

text \<open>
  The comparator of the final sort, negative when \<open>a\<close> goes first. Two tiers that differ are
  subtracted, which gives NaN unless both are numbers; for equal tiers the confidences are
  subtracted, each read as \<open>confidence || 0\<close>. For priorities other than names of inherited
  members the comparator is consistent, and the stable sort is the order the runtime
  produces.
\<close>

definition compareConnections :: "NormalizedConnection \<Rightarrow> NormalizedConnection \<Rightarrow> jsnumber" where
  "compareConnections a b =
    (if priorityTier a \<noteq> priorityTier b then
       (case (priorityTier a, priorityTier b) of
          (Number aPriority, Number bPriority) \<Rightarrow> Finite (real bPriority - real aPriority)
        | _ \<Rightarrow> NaN)
     else numMinus (orZero (confidence (relationship b))) (orZero (confidence (relationship a))))"

definition sortConnections :: "NormalizedConnection list \<Rightarrow> NormalizedConnection list" where
  "sortConnections cs = sortBy (\<lambda>a b. comparatorValue (compareConnections a b)) cs"

section \<open>Rule-based cognate generator (cognateService.ts)\<close>

text \<open>
  A \<open>Cognate\<close> without its \<open>notes\<close>. A sound-change rule is its regular expression and its
  replacement: every pattern of the table is a literal, possibly anchored at the start with
  \<open>^\<close>, possibly followed by the group \<open>([aeiou])\<close> that the replacement repeats as \<open>$1\<close>.
  The field \<open>family\<close> of a rule is never read and is left out.
\<close>

record Cognate =
  cword :: jstring
  clanguage :: jstring
  cconfidence :: real
  crelationship :: jstring
  semanticField :: "jstring option"
  concept :: "jstring option"
  soundChange :: "jstring option"

record SoundChangeRule =
  anchored :: bool
  literal :: jstring
  vowelGroup :: bool
  replacement :: jstring
  example :: jstring
  lang :: "jstring option"

definition soundChangeRules :: "(jstring \<times> SoundChangeRule list) list" where
  "soundChangeRules =
    [(js ''germanic_to_romance'',
      [\<lparr>anchored = True, literal = js ''h'', vowelGroup = True, replacement = [],
        example = js ''haus '' @ [8594] @ js '' casa'', lang = None\<rparr>,
       \<lparr>anchored = False, literal = js ''k'', vowelGroup = True, replacement = js ''c'',
        example = js ''kin '' @ [8594] @ js '' cognate'', lang = None\<rparr>,
       \<lparr>anchored = False, literal = js ''w'', vowelGroup = True, replacement = js ''v'',
        example = js ''water '' @ [8594] @ js '' aqua'', lang = None\<rparr>,
       \<lparr>anchored = True, literal = js ''f'', vowelGroup = False, replacement = js ''p'',
        example = js ''father '' @ [8594] @ js '' pater'', lang = None\<rparr>,
       \<lparr>anchored = False, literal = js ''th'', vowelGroup = False, replacement = js ''t'',
        example = js ''three '' @ [8594] @ js '' tres'', lang = None\<rparr>]),
     (js ''latin_variations'',
      [\<lparr>anchored = False, literal = js ''ct'', vowelGroup = False, replacement = js ''tt'',
        example = js ''factum '' @ [8594] @ js '' fatto'', lang = Some (js ''it'')\<rparr>,
       \<lparr>anchored = False, literal = js ''ct'', vowelGroup = False, replacement = js ''ch'',
        example = js ''factum '' @ [8594] @ js '' hecho'', lang = Some (js ''es'')\<rparr>,
       \<lparr>anchored = False, literal = js ''ct'', vowelGroup = False, replacement = js ''it'',
        example = js ''factum '' @ [8594] @ js '' fait'', lang = Some (js ''fr'')\<rparr>,
       \<lparr>anchored = True, literal = js ''p'', vowelGroup = False, replacement = [],
        example = js ''pater '' @ [8594] @ js '' p'' @ [232] @ js ''re'', lang = Some (js ''fr'')\<rparr>,
       \<lparr>anchored = True, literal = js ''f'', vowelGroup = False, replacement = js ''h'',
        example = js ''farina '' @ [8594] @ js '' harina'', lang = Some (js ''es'')\<rparr>]),
     (js ''indo_european'',
      [\<lparr>anchored = True, literal = js ''p'', vowelGroup = False, replacement = js ''f'',
        example = js ''pater '' @ [8594] @ js '' father'', lang = None\<rparr>,
       \<lparr>anchored = True, literal = js ''d'', vowelGroup = False, replacement = js ''t'',
        example = js ''decem '' @ [8594] @ js '' ten'', lang = None\<rparr>,
       \<lparr>anchored = True, literal = js ''g'', vowelGroup = False, replacement = js ''k'',
        example = js ''genus '' @ [8594] @ js '' kin'', lang = None\<rparr>])]"

definition cognateGroups :: "(jstring \<times> (jstring \<times> (jstring \<times> jstring list) list) list) list" where
  "cognateGroups =
    [(js ''family_relations'',
      [(js ''mother'',
        [(js ''en'', [js ''mother'']),
         (js ''de'', [js ''mutter'']),
         (js ''es'', [js ''madre'']),
         (js ''fr'', [js ''m'' @ [232] @ js ''re'']),
         (js ''it'', [js ''madre'']),
         (js ''la'', [js ''mater'']),
         (js ''ru'', [[1084, 1072, 1090, 1100]]),
         (js ''gr'', [[956, 951, 964, 941, 961, 945]])]),
       (js ''father'',
        [(js ''en'', [js ''father'']),
         (js ''de'', [js ''vater'']),
         (js ''es'', [js ''padre'']),
         (js ''fr'', [js ''p'' @ [232] @ js ''re'']),
         (js ''it'', [js ''padre'']),
         (js ''la'', [js ''pater'']),
         (js ''ru'', [[1086, 1090, 1077, 1094]]),
         (js ''gr'', [[960, 945, 964, 941, 961, 945, 962]])]),
       (js ''brother'',
        [(js ''en'', [js ''brother'']),
         (js ''de'', [js ''bruder'']),
         (js ''es'', [js ''hermano'']),
         (js ''fr'', [js ''fr'' @ [232] @ js ''re'']),
         (js ''it'', [js ''fratello'']),
         (js ''la'', [js ''frater'']),
         (js ''ru'', [[1073, 1088, 1072, 1090]]),
         (js ''gr'', [[945, 948, 949, 955, 966, 972, 962]])])]),
     (js ''numbers'',
      [(js ''one'',
        [(js ''en'', [js ''one'']),
         (js ''de'', [js ''ein'', js ''eins'']),
         (js ''es'', [js ''uno'']),
         (js ''fr'', [js ''un'']),
         (js ''it'', [js ''uno'']),
         (js ''la'', [js ''unus'']),
         (js ''ru'', [[1086, 1076, 1080, 1085]]),
         (js ''gr'', [[941, 957, 945]])]),
       (js ''two'',
        [(js ''en'', [js ''two'']),
         (js ''de'', [js ''zwei'']),
         (js ''es'', [js ''dos'']),
         (js ''fr'', [js ''deux'']),
         (js ''it'', [js ''due'']),
         (js ''la'', [js ''duo'']),
         (js ''ru'', [[1076, 1074, 1072]]),
         (js ''gr'', [[948, 973, 959]])]),
       (js ''three'',
        [(js ''en'', [js ''three'']),
         (js ''de'', [js ''drei'']),
         (js ''es'', [js ''tres'']),
         (js ''fr'', [js ''trois'']),
         (js ''it'', [js ''tre'']),
         (js ''la'', [js ''tres'']),
         (js ''ru'', [[1090, 1088, 1080]]),
         (js ''gr'', [[964, 961, 943, 945]])])]),
     (js ''body_parts'',
      [(js ''heart'',
        [(js ''en'', [js ''heart'']),
         (js ''de'', [js ''herz'']),
         (js ''es'', [js ''coraz'' @ [243] @ js ''n'']),
         (js ''fr'', [js ''c'' @ [339] @ js ''ur'']),
         (js ''it'', [js ''cuore'']),
         (js ''la'', [js ''cor'']),
         (js ''ru'', [[1089, 1077, 1088, 1076, 1094, 1077]]),
         (js ''gr'', [[954, 945, 961, 948, 953, 940]])]),
       (js ''head'',
        [(js ''en'', [js ''head'']),
         (js ''de'', [js ''kopf'', js ''haupt'']),
         (js ''es'', [js ''cabeza'']),
         (js ''fr'', [js ''t'' @ [234] @ js ''te'']),
         (js ''it'', [js ''testa'']),
         (js ''la'', [js ''caput'']),
         (js ''ru'', [[1075, 1086, 1083, 1086, 1074, 1072]]),
         (js ''gr'', [[954, 949, 966, 940, 955, 953]])])]),
     (js ''basic_concepts'',
      [(js ''water'',
        [(js ''en'', [js ''water'']),
         (js ''de'', [js ''wasser'']),
         (js ''es'', [js ''agua'']),
         (js ''fr'', [js ''eau'']),
         (js ''it'', [js ''acqua'']),
         (js ''la'', [js ''aqua'']),
         (js ''ru'', [[1074, 1086, 1076, 1072]]),
         (js ''gr'', [[957, 949, 961, 972]])]),
       (js ''fire'',
        [(js ''en'', [js ''fire'']),
         (js ''de'', [js ''feuer'']),
         (js ''es'', [js ''fuego'']),
         (js ''fr'', [js ''feu'']),
         (js ''it'', [js ''fuoco'']),
         (js ''la'', [js ''ignis'']),
         (js ''ru'', [[1086, 1075, 1086, 1085, 1100]]),
         (js ''gr'', [[966, 969, 964, 953, 940]])]),
       (js ''house'',
        [(js ''en'', [js ''house'']),
         (js ''de'', [js ''haus'']),
         (js ''es'', [js ''casa'']),
         (js ''fr'', [js ''maison'']),
         (js ''it'', [js ''casa'']),
         (js ''la'', [js ''domus'']),
         (js ''ru'', [[1076, 1086, 1084]]),
         (js ''gr'', [[963, 960, 943, 964, 953]])])])]"

definition families :: "(jstring \<times> jstring list) list" where
  "families =
    [(js ''en'', [js ''germanic'', js ''indo_european'']),
     (js ''de'', [js ''germanic'', js ''indo_european'']),
     (js ''nl'', [js ''germanic'', js ''indo_european'']),
     (js ''da'', [js ''germanic'', js ''indo_european'']),
     (js ''sv'', [js ''germanic'', js ''indo_european'']),
     (js ''no'', [js ''germanic'', js ''indo_european'']),
     (js ''es'', [js ''romance'', js ''indo_european'']),
     (js ''fr'', [js ''romance'', js ''indo_european'']),
     (js ''it'', [js ''romance'', js ''indo_european'']),
     (js ''pt'', [js ''romance'', js ''indo_european'']),
     (js ''ro'', [js ''romance'', js ''indo_european'']),
     (js ''ca'', [js ''romance'', js ''indo_european'']),
     (js ''la'', [js ''latin'', js ''indo_european'']),
     (js ''gr'', [js ''hellenic'', js ''indo_european'']),
     (js ''ru'', [js ''slavic'', js ''indo_european'']),
     (js ''pl'', [js ''slavic'', js ''indo_european'']),
     (js ''cs'', [js ''slavic'', js ''indo_european'']),
     (js ''ar'', [js ''semitic'']),
     (js ''he'', [js ''semitic'']),
     (js ''hi'', [js ''indo_aryan'', js ''indo_european'']),
     (js ''sa'', [js ''indo_aryan'', js ''indo_european''])]"

definition getLanguageFamily :: "jstring \<Rightarrow> jstring list" where
  "getLanguageFamily languageCode =
    (case map_of families languageCode of None \<Rightarrow> [js ''unknown''] | Some fs \<Rightarrow> fs)"

definition derivationalSuffixes :: "jstring list" where
  "derivationalSuffixes =
    [js ''ing'', js ''ed'', js ''s'', js ''es'', js ''ies'', js ''er'', js ''est'',
     js ''ly'', js ''ie'', js ''y'', js ''ness'', js ''ment'', js ''tion'', js ''sion'',
     js ''ful'', js ''less'', js ''able'', js ''ible'', js ''ist'', js ''ian'', js ''ism'',
     js ''ity'', js ''hood'', js ''ship'', js ''ward'', js ''wise'', js ''like'',
     js ''ify'', js ''ize'', js ''ise'', js ''ate'', js ''age'', js ''dom'', js ''ory'',
     js ''ous'', js ''ive'', js ''ant'', js ''ent'', js ''al'', js ''ic'', js ''ous'',
     js ''eous'', js ''ious'', js ''ary'', js ''ery'', js ''ory'', js ''ure'', js ''ade'']"

definition derivationalPrefixes :: "jstring list" where
  "derivationalPrefixes =
    [js ''re'', js ''un'', js ''pre'', js ''dis'', js ''mis'', js ''over'', js ''under'',
     js ''out'', js ''up'', js ''in'', js ''im'', js ''il'', js ''ir'', js ''non'',
     js ''anti'', js ''de'', js ''ex'', js ''sub'', js ''super'', js ''inter'',
     js ''trans'', js ''semi'', js ''multi'', js ''co'']"

definition isDerivative ::
  "(jstring \<Rightarrow> jstring) \<Rightarrow> jstring \<Rightarrow> jstring \<Rightarrow> jstring \<Rightarrow> jstring \<Rightarrow> bool" where
  "isDerivative lc sourceText targetText sourceLang targetLang =
    (let src = trim (lc sourceText);
         target = trim (lc targetText)
     in if src = target then True
        else if sourceLang \<noteq> targetLang then isCrossLanguageDerivative src target sourceLang targetLang
        else list_ex (inflects src target) derivationalSuffixes
           \<or> list_ex (inflects target src) derivationalSuffixes
           \<or> list_ex (\<lambda>prefix. target = prefix @ src \<or> src = prefix @ target) derivationalPrefixes)"

definition directCognate :: "jstring \<Rightarrow> jstring \<Rightarrow> jstring \<Rightarrow> jstring \<Rightarrow> Cognate" where
  "directCognate fieldName conceptName targetLang cognateWord =
    \<lparr>cword = cognateWord, clanguage = targetLang, cconfidence = 0.95, crelationship = js ''cognate'',
     semanticField = Some fieldName, concept = Some conceptName, soundChange = None\<rparr>"

definition conceptCognates ::
  "(jstring \<Rightarrow> jstring) \<Rightarrow> jstring \<Rightarrow> jstring \<Rightarrow> jstring list \<Rightarrow> jstring
     \<Rightarrow> jstring \<times> (jstring \<times> jstring list) list \<Rightarrow> Cognate list" where
  "conceptCognates lc w sourceLanguage targetLanguages fieldName entry =
    (case entry of (conceptName, languageMap) \<Rightarrow>
      (let sourceWords = (case map_of languageMap sourceLanguage of None \<Rightarrow> [] | Some ws \<Rightarrow> ws)
       in if list_ex (\<lambda>x. lc x = lc w) sourceWords then
            concat (map (\<lambda>targetLang.
              (case map_of languageMap targetLang of
                 None \<Rightarrow> []
               | Some ws \<Rightarrow>
                   if targetLang \<noteq> sourceLanguage then
                     map (directCognate fieldName conceptName targetLang)
                       (filter (\<lambda>cognateWord. \<not> isDerivative lc w cognateWord sourceLanguage targetLang) ws)
                   else [])) targetLanguages)
          else []))"

definition findDirectCognates ::
  "(jstring \<Rightarrow> jstring) \<Rightarrow> jstring \<Rightarrow> jstring \<Rightarrow> jstring list \<Rightarrow> Cognate list" where
  "findDirectCognates lc w sourceLanguage targetLanguages =
    concat (map (\<lambda>field. case field of (fieldName, concepts) \<Rightarrow>
      concat (map (conceptCognates lc w sourceLanguage targetLanguages fieldName) concepts)) cognateGroups)"

definition vowels :: "nat list" where
  "vowels = js ''aeiou''"

definition matchesHere :: "SoundChangeRule \<Rightarrow> jstring \<Rightarrow> bool" where
  "matchesHere rule s =
    (startsWith s (literal rule)
     \<and> (if vowelGroup rule then
          (case drop (length (literal rule)) s of [] \<Rightarrow> False | c # rest \<Rightarrow> c \<in> set vowels)
        else True))"

text \<open>\<open>word.replace(rule.from, rule.to)\<close> at the first match, \<open>None\<close> when \<open>word.match\<close> fails.\<close>

fun replaceFirstMatch :: "SoundChangeRule \<Rightarrow> jstring \<Rightarrow> jstring option" where
  "replaceFirstMatch rule [] = (if matchesHere rule [] then Some (replacement rule) else None)"
| "replaceFirstMatch rule (c # s) =
     (if matchesHere rule (c # s) then Some (replacement rule @ drop (length (literal rule)) (c # s))
      else if anchored rule then None
      else map_option ((#) c) (replaceFirstMatch rule s))"

definition ruleCognate :: "jstring \<Rightarrow> jstring \<Rightarrow> SoundChangeRule \<Rightarrow> Cognate option" where
  "ruleCognate w targetLang rule =
    (if lang rule \<noteq> None \<and> lang rule \<noteq> Some targetLang then None
     else case replaceFirstMatch rule w of
            None \<Rightarrow> None
          | Some transformedWord \<Rightarrow>
              if transformedWord \<noteq> w \<and> length transformedWord > 1 then
                Some \<lparr>cword = transformedWord, clanguage = targetLang, cconfidence = 0.75,
                      crelationship = js ''cognate'', semanticField = None, concept = None,
                      soundChange = Some (example rule)\<rparr>
              else None)"

definition rulesFor :: "jstring \<Rightarrow> jstring \<Rightarrow> SoundChangeRule list" where
  "rulesFor family targetFamily =
    (case map_of soundChangeRules (family @ js ''_to_'' @ targetFamily) of
       Some rules \<Rightarrow> rules
     | None \<Rightarrow> (case map_of soundChangeRules family of Some rules \<Rightarrow> rules | None \<Rightarrow> []))"

definition applySoundChangeRules :: "jstring \<Rightarrow> jstring \<Rightarrow> jstring list \<Rightarrow> Cognate list" where
  "applySoundChangeRules w sourceLanguage targetLanguages =
    concat (map (\<lambda>targetLang.
      if targetLang = sourceLanguage then []
      else concat (map (\<lambda>family.
             concat (map (\<lambda>targetFamily.
               List.map_filter (ruleCognate w targetLang) (rulesFor family targetFamily))
               (getLanguageFamily targetLang)))
             (getLanguageFamily sourceLanguage))) targetLanguages)"

text \<open>
  \<open>deduplicateCognates\<close>: the first cognate of a key stays unless a later one has a strictly
  higher confidence. As in \<open>deduplicateConnections\<close>, \<open>indexOf\<close> finds the stored object.
\<close>


definition cognateKey :: "(jstring \<Rightarrow> jstring) \<Rightarrow> Cognate \<Rightarrow> jstring" where
  "cognateKey lc c = lc (cword c) @ js ''_'' @ clanguage c"

record CognateState =
  cseen :: "jstring \<rightharpoonup> Cognate"
  unique :: "Cognate list"

definition cognateStep :: "(jstring \<Rightarrow> jstring) \<Rightarrow> CognateState \<Rightarrow> Cognate \<Rightarrow> CognateState" where
  "cognateStep lc st cognate =
    (case cseen st (cognateKey lc cognate) of
       None \<Rightarrow> st\<lparr>cseen := (cseen st)(cognateKey lc cognate \<mapsto> cognate), unique := unique st @ [cognate]\<rparr>
     | Some existing \<Rightarrow>
         if cconfidence cognate > cconfidence existing then
           (case indexOf (unique st) existing of
              None \<Rightarrow> st
            | Some i \<Rightarrow> st\<lparr>cseen := (cseen st)(cognateKey lc cognate \<mapsto> cognate),
                           unique := (unique st)[i := cognate]\<rparr>)
         else st)"

definition deduplicateCognates :: "(jstring \<Rightarrow> jstring) \<Rightarrow> Cognate list \<Rightarrow> Cognate list" where
  "deduplicateCognates lc cognates =
    unique (foldl (cognateStep lc) \<lparr>cseen = Map.empty, unique = []\<rparr> cognates)"

definition sortCognates :: "Cognate list \<Rightarrow> Cognate list" where
  "sortCognates cs = sortBy (\<lambda>a b. cconfidence b - cconfidence a) cs"

text \<open>
  \<open>findCognates\<close> keeps its results in a cache of its own, keyed by the word, the source
  language and the target languages joined with \<open>_\<close>. The lookup is a function of these
  three, so a hit returns what the computation below returns, except when two different
  pairs of word and language give the same key; one of the languages then contains \<open>_\<close>, no
  word of the concept table and no language of it does, so neither pair has a direct
  cognate, and the entry point keeps direct cognates only. The cache is left out.
\<close>

definition findCognates ::
  "(jstring \<Rightarrow> jstring) \<Rightarrow> jstring \<Rightarrow> jstring \<Rightarrow> jstring list \<Rightarrow> Cognate list" where
  "findCognates lc w sourceLanguage targetLanguages =
    (let normalizedWord = trim (lc w)
     in sortCognates (deduplicateCognates lc
          (findDirectCognates lc normalizedWord sourceLanguage targetLanguages
           @ applySoundChangeRules normalizedWord sourceLanguage targetLanguages)))"

section \<open>The entry point (etymologyService.ts, findEtymologicalConnections)\<close>

text \<open>
  What a source hands over is loosely typed (\<open>connection: any\<close>): a candidate may lack its word,
  its text, its relationship, its type or a numeric confidence. \<open>None\<close> stands for a field that
  is absent or of the wrong type (for the confidence: whatever is not of type \<open>number\<close>; NaN and
  the infinities are). The language is read as \<open>(language || ...).toLowerCase()\<close>: it is falsy,
  a string, or another truthy value, which has no method \<open>toLowerCase\<close>, so that the call
  throws a TypeError. A type that is truthy and not a string is outside the model.
\<close>

datatype languageValue = LanguageFalsy | LanguageText jstring | LanguageOther

record RawWord =
  rawText :: "jstring option"
  rawLanguage :: languageValue

record RawRelationship =
  rawType :: "jstring option"
  rawConfidence :: "jsnumber option"

record RawConnection =
  rawWord :: "RawWord option"
  rawRelationship :: "RawRelationship option"

datatype error = WordRequired | TypeError

definition orEmpty :: "jstring option \<Rightarrow> jstring" where
  "orEmpty x = (case x of None \<Rightarrow> [] | Some s \<Rightarrow> s)"

definition candidateLanguage :: "(jstring \<Rightarrow> jstring) \<Rightarrow> Word \<Rightarrow> languageValue \<Rightarrow> error + jstring" where
  "candidateLanguage lc sourceWord v =
    (case v of
       LanguageOther \<Rightarrow> Inl TypeError
     | LanguageFalsy \<Rightarrow> Inr (lc (orElse (wlanguage sourceWord) (js ''und'')))
     | LanguageText s \<Rightarrow> Inr (lc (orElse (orElse s (wlanguage sourceWord)) (js ''und''))))"

definition normalizeConnection ::
  "(jstring \<Rightarrow> jstring) \<Rightarrow> Word \<Rightarrow> RawConnection \<Rightarrow> error + NormalizedConnection option" where
  "normalizeConnection lc sourceWord connection =
    (case rawWord connection of
       None \<Rightarrow> Inr None
     | Some w \<Rightarrow>
         (let targetText = (case rawText w of None \<Rightarrow> [] | Some t \<Rightarrow> trim t)
          in if targetText = [] then Inr None
             else case candidateLanguage lc sourceWord (rawLanguage w) of
                    Inl e \<Rightarrow> Inl e
                  | Inr language \<Rightarrow>
                      Inr (Some
                        \<lparr>word = \<lparr>wtext = targetText, wlanguage = language\<rparr>,
                         relationship =
                           \<lparr>rtype = (case rawRelationship connection of
                                       None \<Rightarrow> js ''related''
                                     | Some r \<Rightarrow> orElse (orEmpty (rawType r)) (js ''related'')),
                            confidence = (case rawRelationship connection of
                                            None \<Rightarrow> Finite 0.5
                                          | Some r \<Rightarrow> (case rawConfidence r of
                                                         None \<Rightarrow> Finite 0.5 | Some x \<Rightarrow> x)),
                            priority = None, source = None\<rparr>\<rparr>)))"

text \<open>
  The loop \<open>for (const connection of connections)\<close> over the candidates of one source: the
  first candidate on which \<open>normalizeConnection\<close> throws ends it, and the entry point with it.
\<close>

fun normalizeAll ::
  "(jstring \<Rightarrow> jstring) \<Rightarrow> Word \<Rightarrow> RawConnection list \<Rightarrow> error + NormalizedConnection list" where
  "normalizeAll lc sourceWord [] = Inr []"
| "normalizeAll lc sourceWord (connection # rest) =
     (case normalizeConnection lc sourceWord connection of
        Inl e \<Rightarrow> Inl e
      | Inr normalized \<Rightarrow>
          (case normalizeAll lc sourceWord rest of
             Inl e \<Rightarrow> Inl e
           | Inr others \<Rightarrow> Inr (case normalized of None \<Rightarrow> others | Some c \<Rightarrow> c # others)))"

text \<open>
  The dictionary source delivers an entry with one origin sentence, which \<open>parseOriginText\<close>
  scans with two regular expressions; the scan is not modelled, the segments it returns are
  part of the input (none when the origin is not a string or blank). The meanings of the
  entry come from the network as they are: an element of \<open>meanings\<close> or of the \<open>definitions\<close>
  of a meaning may be \<open>null\<close>, which is \<open>None\<close> here. Of the data of wiktionary the entry
  point reads the definitions, the part of speech (empty when absent) and the candidates
  (\<open>None\<close> when \<open>connections\<close> is not an array), of the data of etymonline the candidates.
\<close>

record OriginSegment =
  segType :: jstring
  languageName :: jstring
  rootWord :: jstring

record Meaning =
  partOfSpeech :: jstring
  meaningDefinitions :: "jstring option list"

record DictionaryEntry =
  originSegments :: "OriginSegment list"
  meanings :: "Meaning option list"

record WiktionaryData =
  wkDefinitions :: "jstring list"
  wkPartOfSpeech :: jstring
  wkConnections :: "RawConnection list option"

record EtymonlineData =
  etConnections :: "RawConnection list option"

text \<open>
  \<open>extractDefinition\<close> and \<open>extractPartOfSpeech\<close> read \<open>meanings[0].definitions\<close>,
  \<open>meanings[0].definitions[0].definition\<close> and \<open>meanings[0].partOfSpeech\<close> without a test of
  the element: on \<open>null\<close> the access throws a TypeError.
\<close>

definition extractDefinition :: "WiktionaryData option \<Rightarrow> DictionaryEntry option \<Rightarrow> error + jstring option" where
  "extractDefinition wiktionaryData dictionaryData =
    (case (case wiktionaryData of None \<Rightarrow> [] | Some d \<Rightarrow> wkDefinitions d) of
       definition0 # others \<Rightarrow> Inr (Some definition0)
     | [] \<Rightarrow>
        (case (case dictionaryData of None \<Rightarrow> [] | Some entry \<Rightarrow> meanings entry) of
           [] \<Rightarrow> Inr None
         | None # others \<Rightarrow> Inl TypeError
         | Some meaning # others \<Rightarrow>
             (case meaningDefinitions meaning of
                [] \<Rightarrow> Inr None
              | None # rest \<Rightarrow> Inl TypeError
              | Some definition0 # rest \<Rightarrow> Inr (Some definition0))))"

definition extractPartOfSpeech :: "WiktionaryData option \<Rightarrow> DictionaryEntry option \<Rightarrow> error + jstring" where
  "extractPartOfSpeech wiktionaryData dictionaryData =
    (if (case wiktionaryData of None \<Rightarrow> [] | Some d \<Rightarrow> wkPartOfSpeech d) \<noteq> []
     then Inr (case wiktionaryData of None \<Rightarrow> [] | Some d \<Rightarrow> wkPartOfSpeech d)
     else case (case dictionaryData of None \<Rightarrow> [] | Some entry \<Rightarrow> meanings entry) of
            [] \<Rightarrow> Inr (js ''unknown'')
          | None # others \<Rightarrow> Inl TypeError
          | Some meaning # others \<Rightarrow> Inr (partOfSpeech meaning))"

text \<open>
  \<open>buildSourceWord\<close> evaluates the definition, the phonetic spelling, the etymologies and the
  part of speech in this order; the second and the third cannot throw. The word it returns
  is kept here with its text and its language.
\<close>

definition buildSourceWord ::
  "jstring \<Rightarrow> jstring \<Rightarrow> WiktionaryData option \<Rightarrow> DictionaryEntry option \<Rightarrow> error + Word" where
  "buildSourceWord w language wiktionaryData dictionaryData =
    (case extractDefinition wiktionaryData dictionaryData of
       Inl e \<Rightarrow> Inl e
     | Inr definition0 \<Rightarrow>
         (case extractPartOfSpeech wiktionaryData dictionaryData of
            Inl e \<Rightarrow> Inl e
          | Inr partOfSpeech0 \<Rightarrow> Inr \<lparr>wtext = w, wlanguage = language\<rparr>))"

definition languageCodeMapping :: "(jstring \<times> jstring) list" where
  "languageCodeMapping =
    [(js ''proto-indo-european'', js ''ine-pro''), (js ''proto-germanic'', js ''gem-pro''),
     (js ''proto'', js ''proto''), (js ''old english'', js ''en''), (js ''middle english'', js ''en''),
     (js ''old french'', js ''fr''), (js ''middle french'', js ''fr''), (js ''latin'', js ''la''),
     (js ''greek'', js ''gr''), (js ''ancient greek'', js ''gr''), (js ''sanskrit'', js ''sa''),
     (js ''old norse'', js ''non''), (js ''old high german'', js ''de''),
     (js ''middle high german'', js ''de''), (js ''german'', js ''de''), (js ''dutch'', js ''nl''),
     (js ''spanish'', js ''es''), (js ''italian'', js ''it''), (js ''portuguese'', js ''pt''),
     (js ''english'', js ''en''), (js ''french'', js ''fr''), (js ''celtic'', js ''cel''),
     (js ''arabic'', js ''ar'')]"

fun firstPrefixCode :: "(jstring \<times> jstring) list \<Rightarrow> jstring \<Rightarrow> jstring option" where
  "firstPrefixCode [] normalized = None"
| "firstPrefixCode ((prefix, code) # mapping) normalized =
     (if startsWith normalized prefix then Some code else firstPrefixCode mapping normalized)"

definition getLanguageCodeFromName :: "(jstring \<Rightarrow> jstring) \<Rightarrow> jstring \<Rightarrow> jstring" where
  "getLanguageCodeFromName lc name =
    (let normalized = lc name
     in case firstPrefixCode languageCodeMapping normalized of
          Some code \<Rightarrow> code
        | None \<Rightarrow> if includesStr normalized (js ''proto'') then js ''proto'' else js ''und'')"

definition connectionsFromOrigin ::
  "(jstring \<Rightarrow> jstring) \<Rightarrow> OriginSegment list \<Rightarrow> Word \<Rightarrow> NormalizedConnection list" where
  "connectionsFromOrigin lc segments sourceWord =
    map (\<lambda>segment.
      \<lparr>word = \<lparr>wtext = rootWord segment, wlanguage = getLanguageCodeFromName lc (languageName segment)\<rparr>,
       relationship = \<lparr>rtype = segType segment, confidence = Finite 0.6, priority = None, source = None\<rparr>\<rparr>)
      segments"

definition stamp :: "jstring \<Rightarrow> jstring \<Rightarrow> NormalizedConnection \<Rightarrow> NormalizedConnection" where
  "stamp p s c = c\<lparr>relationship := (relationship c)\<lparr>priority := Some p, source := Some s\<rparr>\<rparr>"

text \<open>
  The boost of etymonline candidates, \<open>if (confidence) confidence = Math.min(confidence + 0.1,
  0.95)\<close>: a confidence of 0 or NaN is falsy and stays.
\<close>

definition boostConfidence :: "NormalizedConnection \<Rightarrow> NormalizedConnection" where
  "boostConfidence c =
    (if truthy (confidence (relationship c))
     then c\<lparr>relationship := (relationship c)
              \<lparr>confidence := mathMin (numPlus (confidence (relationship c)) 0.1) 0.95\<rparr>\<rparr>
     else c)"

definition etymonlineConnections ::
  "(jstring \<Rightarrow> jstring) \<Rightarrow> Word \<Rightarrow> EtymonlineData option \<Rightarrow> error + NormalizedConnection list" where
  "etymonlineConnections lc sourceWord etymonlineData =
    (case (case etymonlineData of None \<Rightarrow> None | Some d \<Rightarrow> etConnections d) of
       None \<Rightarrow> Inr []
     | Some conns \<Rightarrow>
         (case normalizeAll lc sourceWord conns of
            Inl e \<Rightarrow> Inl e
          | Inr normalized \<Rightarrow>
              Inr (map (\<lambda>c. stamp (js ''high'') (js ''etymonline.com'') (boostConfidence c)) normalized)))"

definition wiktionaryConnections ::
  "(jstring \<Rightarrow> jstring) \<Rightarrow> Word \<Rightarrow> WiktionaryData option \<Rightarrow> error + NormalizedConnection list" where
  "wiktionaryConnections lc sourceWord wiktionaryData =
    (case (case wiktionaryData of None \<Rightarrow> None | Some d \<Rightarrow> wkConnections d) of
       None \<Rightarrow> Inr []
     | Some conns \<Rightarrow>
         (case normalizeAll lc sourceWord conns of
            Inl e \<Rightarrow> Inl e
          | Inr normalized \<Rightarrow> Inr (map (stamp (js ''medium'') (js ''wiktionary'')) normalized)))"

definition dictionaryConnections ::
  "(jstring \<Rightarrow> jstring) \<Rightarrow> Word \<Rightarrow> DictionaryEntry option \<Rightarrow> NormalizedConnection list" where
  "dictionaryConnections lc sourceWord dictionaryData =
    (case dictionaryData of
       None \<Rightarrow> []
     | Some entry \<Rightarrow>
         map (stamp (js ''low'') (js ''dictionary-api''))
           (connectionsFromOrigin lc (originSegments entry) sourceWord))"

definition isValidCognateConnection ::
  "(jstring \<Rightarrow> jstring) \<Rightarrow> jstring \<Rightarrow> jstring \<Rightarrow> jstring \<Rightarrow> jstring \<Rightarrow> bool" where
  "isValidCognateConnection lc sourceWord cognateWord sourceLang cognateLang =
    (if sourceWord = [] \<or> cognateWord = [] \<or> sourceLang = [] \<or> cognateLang = [] then False
     else if sourceLang = cognateLang then False
     else
       (let sourceLower = lc sourceWord;
            cognateLower = lc cognateWord
        in if lengthDiff sourceLower cognateLower > 4 then False
           else if real (commonChars sourceLower cognateLower)
                     / real (max (length sourceLower) (length cognateLower)) < 0.25 then False
           else areLanguageCompatible sourceLang cognateLang (js ''cognate'')))"

definition cognateLanguages :: "jstring list" where
  "cognateLanguages =
    [js ''en'', js ''es'', js ''fr'', js ''de'', js ''it'', js ''pt'', js ''la'', js ''gr'', js ''ru'',
     js ''pl'', js ''nl'', js ''da'', js ''sv'', js ''no'']"

text \<open>The filter on the cognate results: \<open>semanticField\<close> and \<open>concept\<close> must be non-empty strings.\<close>

definition isValidCognate :: "(jstring \<Rightarrow> jstring) \<Rightarrow> jstring \<Rightarrow> jstring \<Rightarrow> Cognate \<Rightarrow> bool" where
  "isValidCognate lc normalizedWord normalizedLanguage cognate =
    (if cconfidence cognate < 0.85 then False
     else if orEmpty (semanticField cognate) = [] \<or> orEmpty (concept cognate) = [] then False
     else isValidCognateConnection lc normalizedWord (cword cognate) normalizedLanguage (clanguage cognate))"

definition cognateConnection :: "Cognate \<Rightarrow> NormalizedConnection" where
  "cognateConnection cognate =
    \<lparr>word = \<lparr>wtext = cword cognate, wlanguage = clanguage cognate\<rparr>,
     relationship = \<lparr>rtype = js ''cognate'', confidence = Finite (cconfidence cognate),
                     priority = Some (js ''medium''), source = None\<rparr>\<rparr>"

definition validCognates :: "(jstring \<Rightarrow> jstring) \<Rightarrow> jstring \<Rightarrow> jstring \<Rightarrow> Cognate list" where
  "validCognates lc normalizedWord normalizedLanguage =
    filter (isValidCognate lc normalizedWord normalizedLanguage)
      (findCognates lc normalizedWord normalizedLanguage cognateLanguages)"

text \<open>
  The cognate block sits in a \<open>try\<close>. \<open>findDirectCognates\<close> calls \<open>.some\<close> on
  \<open>languageMap[sourceLanguage] || []\<close>; for a source language that is the name of an inherited
  member this is not an array and the call throws a TypeError, which the \<open>catch\<close> of the
  entry point logs: no cognate connection is added.
\<close>

definition findCognatesThrows :: "jstring \<Rightarrow> bool" where
  "findCognatesThrows sourceLanguage = (sourceLanguage \<in> set objectPrototypeNames)"

definition cognateConnections :: "(jstring \<Rightarrow> jstring) \<Rightarrow> jstring \<Rightarrow> jstring \<Rightarrow> NormalizedConnection list" where
  "cognateConnections lc normalizedWord normalizedLanguage =
    (if findCognatesThrows normalizedLanguage then []
     else map cognateConnection (validCognates lc normalizedWord normalizedLanguage))"

text \<open>
  The four blocks are pushed in this order: etymonline, wiktionary, dictionary, cognates.
  An exception of the first or the second loop leaves the entry point at once.
\<close>

definition collectConnections ::
  "(jstring \<Rightarrow> jstring) \<Rightarrow> Word \<Rightarrow> WiktionaryData option \<Rightarrow> DictionaryEntry option
     \<Rightarrow> EtymonlineData option \<Rightarrow> error + NormalizedConnection list" where
  "collectConnections lc sourceWord wiktionaryData dictionaryData etymonlineData =
    (case etymonlineConnections lc sourceWord etymonlineData of
       Inl e \<Rightarrow> Inl e
     | Inr fromEtymonline \<Rightarrow>
         (case wiktionaryConnections lc sourceWord wiktionaryData of
            Inl e \<Rightarrow> Inl e
          | Inr fromWiktionary \<Rightarrow>
              Inr (fromEtymonline @ fromWiktionary
                   @ dictionaryConnections lc sourceWord dictionaryData
                   @ cognateConnections lc (wtext sourceWord) (wlanguage sourceWord))))"

text \<open>Filter, deduplicate, sort: the tail of the entry point, on the collected list.\<close>

definition mergeConnections ::
  "(jstring \<Rightarrow> jstring) \<Rightarrow> NormalizedConnection list \<Rightarrow> Word \<Rightarrow> NormalizedConnection list" where
  "mergeConnections lc connections sourceWord =
    sortConnections
      (deduplicateConnections lc
        (filter (\<lambda>connection. \<not> isTrivialDerivative lc (wtext sourceWord) (wtext (word connection))
                                  (wlanguage sourceWord) (wlanguage (word connection))) connections)
        (Some sourceWord))"

text \<open>The returned \<open>Connection\<close> (without \<open>notes\<close>) and \<open>EtymologyData\<close>.\<close>

record Connection =
  cnWord :: Word
  cnType :: jstring
  cnConfidence :: jsnumber
  cnSource :: jstring

record EtymologyData =
  dataSourceWord :: Word
  dataConnections :: "Connection list"

definition toConnection :: "NormalizedConnection \<Rightarrow> Connection" where
  "toConnection conn =
    \<lparr>cnWord = word conn, cnType = rtype (relationship conn),
     cnConfidence = confidence (relationship conn),
     cnSource = (case source (relationship conn) of None \<Rightarrow> js ''unknown''
                 | Some s \<Rightarrow> orElse s (js ''unknown''))\<rparr>"

text \<open>
  \<open>Promise.allSettled\<close> waits for the three fetches and hands over their outcomes by position,
  wiktionary, dictionary, etymonline, whatever the order in which they settle. A settlement
  is the promise that settles with its outcome: fulfilled with data or \<open>null\<close>, or rejected.
  \<open>allSettled\<close> is \<open>None\<close> as long as one of the three has not settled.
\<close>

datatype 'a settled = Fulfilled 'a | Rejected

record FetchResults =
  wiktionaryResult :: "WiktionaryData option settled"
  dictionaryResult :: "DictionaryEntry option settled"
  etymonlineResult :: "EtymonlineData option settled"





definition settledValue :: "'a option settled \<Rightarrow> 'a option" where
  "settledValue r = (case r of Fulfilled v \<Rightarrow> v | Rejected \<Rightarrow> None)"

text \<open>
  The body of \<open>findEtymologicalConnections\<close> after the cache has been asked, from the results
  of \<open>Promise.allSettled\<close> to the result object.
\<close>

definition lookupConnections ::
  "(jstring \<Rightarrow> jstring) \<Rightarrow> jstring \<Rightarrow> jstring \<Rightarrow> FetchResults \<Rightarrow> error + EtymologyData" where
  "lookupConnections lc normalizedWord normalizedLanguage results =
    (let wiktionaryData = settledValue (wiktionaryResult results);
         dictionaryData = settledValue (dictionaryResult results);
         etymonlineData = settledValue (etymonlineResult results)
     in case buildSourceWord normalizedWord normalizedLanguage wiktionaryData dictionaryData of
          Inl e \<Rightarrow> Inl e
        | Inr sourceWord \<Rightarrow>
            (case collectConnections lc sourceWord wiktionaryData dictionaryData etymonlineData of
               Inl e \<Rightarrow> Inl e
             | Inr connections \<Rightarrow>
                 Inr \<lparr>dataSourceWord = sourceWord,
                      dataConnections = map toConnection (mergeConnections lc connections sourceWord)\<rparr>))"

text \<open>
  The result cache of the service, a map from cache keys to results. An entry expires after
  an hour, so between two calls entries may disappear. The cache returns copies
  (\<open>useClones\<close> is left at its default).

  \<open>findEtymologicalConnections word language bypassCache\<close> with the cache before the call and
  the results of the three fetches; it returns the result or the exception, and the cache
  after the call. The fetches are not started when the word is blank or the cache answers.
\<close>

type_synonym cache = "jstring \<rightharpoonup> EtymologyData"

definition cacheKey :: "(jstring \<Rightarrow> jstring) \<Rightarrow> jstring \<Rightarrow> jstring \<Rightarrow> jstring" where
  "cacheKey lc normalizedLanguage normalizedWord = normalizedLanguage @ js '':'' @ lc normalizedWord"

definition findEtymologicalConnections ::
  "(jstring \<Rightarrow> jstring) \<Rightarrow> cache \<Rightarrow> jstring \<Rightarrow> jstring option \<Rightarrow> bool \<Rightarrow> FetchResults
     \<Rightarrow> (error + EtymologyData) \<times> cache" where
  "findEtymologicalConnections lc cache w language bypassCache results =
    (let normalizedWord = trim w
     in if normalizedWord = [] then (Inl WordRequired, cache)
        else
          (let normalizedLanguage = lc (orElse (orEmpty language) (js ''en''));
               key = cacheKey lc normalizedLanguage normalizedWord
           in case (if bypassCache then None else cache key) of
                Some cached \<Rightarrow> (Inr cached, cache)
              | None \<Rightarrow>
                  (case lookupConnections lc normalizedWord normalizedLanguage results of
                     Inl e \<Rightarrow> (Inl e, cache)
                   | Inr computed \<Rightarrow>
                       (Inr computed, if bypassCache then cache else cache(key \<mapsto> computed)))))"

section \<open>Etymonline extractor and cross-reference index (etymonlineAPI.ts)\<close>

definition suspiciousColors :: "jstring list" where
  "suspiciousColors = [js ''red'', js ''blue'', js ''green'', js ''yellow'', js ''black'', js ''white'']"

definition suspiciousNumbers :: "jstring list" where
  "suspiciousNumbers = [js ''one'', js ''two'', js ''three'', js ''four'', js ''five'']"

definition suspiciousPairs :: "(jstring \<times> jstring) list" where
  "suspiciousPairs = [(js ''water'', js ''fire''), (js ''fire'', js ''water''),
                      (js ''water'', js ''punjab''), (js ''punjab'', js ''water''),
                      (js ''test'', js ''forest''), (js ''forest'', js ''test'')]"

definition areSemanticallySuspicious :: "jstring \<Rightarrow> jstring \<Rightarrow> bool" where
  "areSemanticallySuspicious w sourceWord =
    (let wordLower = toLowerCase w;
         sourceLower = toLowerCase sourceWord;
         wordIsElement = (wordLower \<in> set basicElements);
         sourceIsElement = (sourceLower \<in> set basicElements);
         wordIsColor = (wordLower \<in> set suspiciousColors);
         sourceIsColor = (sourceLower \<in> set suspiciousColors);
         wordIsNumber = (wordLower \<in> set suspiciousNumbers);
         sourceIsNumber = (sourceLower \<in> set suspiciousNumbers)
     in if (wordIsElement \<and> sourceIsColor) \<or> (wordIsColor \<and> sourceIsElement) then True
        else if (wordIsElement \<and> sourceIsNumber) \<or> (wordIsNumber \<and> sourceIsElement) then True
        else if startsWith wordLower (js ''*'') \<or> startsWith sourceLower (js ''*'') then False
        else list_ex (pairMatches wordLower sourceLower) suspiciousPairs)"

subsection \<open>Root keys\<close>

text \<open>
  The character class of the reconstructed-root token, \<open>[a-zA-Z\<close>, the subscript digits,
  eleven phonetic letters and \<open>-]\<close>; the token is \<open>*\<close> followed by a longest run of the class,
  at the first place where such a run is not empty.
\<close>

definition isRootChar :: "nat \<Rightarrow> bool" where
  "isRootChar c = ((97 \<le> c \<and> c \<le> 122) \<or> (65 \<le> c \<and> c \<le> 90) \<or> (8320 \<le> c \<and> c \<le> 8329)
     \<or> c = 688 \<or> c = 8337 \<or> c = 695 \<or> c = 946 \<or> c = 607 \<or> c = 7729 \<or> c = 285
     \<or> c = 690 \<or> c = 700 \<or> c = 45)"

fun pieRootMatch :: "jstring \<Rightarrow> jstring option" where
  "pieRootMatch [] = None"
| "pieRootMatch (c # s) =
     (if c = 42 \<and> takeWhile isRootChar s \<noteq> [] then Some (takeWhile isRootChar s)
      else pieRootMatch s)"

text \<open>
  The two prefix patterns are case-insensitive and anchored at the start. A literal is given
  in lower case; \<open>[A-Za-z]+\<close> and \<open>\s+\<close> are longest runs, and since what may follow a run is
  never in the run's class, the expression matches without backtracking into a run. The
  alternatives are tried in the order of the source.
\<close>

definition isLetter :: "nat \<Rightarrow> bool" where
  "isLetter c = ((65 \<le> c \<and> c \<le> 90) \<or> (97 \<le> c \<and> c \<le> 122))"

definition isLetterOrHyphen :: "nat \<Rightarrow> bool" where
  "isLetterOrHyphen c = (isLetter c \<or> c = 45)"

definition matchLiteral :: "jstring \<Rightarrow> jstring \<Rightarrow> jstring option" where
  "matchLiteral lit s =
    (if toLowerCase (take (length lit) s) = lit then Some (drop (length lit) s) else None)"

definition matchRun :: "(nat \<Rightarrow> bool) \<Rightarrow> jstring \<Rightarrow> jstring option" where
  "matchRun P s = (if takeWhile P s = [] then None else Some (dropWhile P s))"

fun firstMatch :: "jstring option list \<Rightarrow> jstring option" where
  "firstMatch [] = None"
| "firstMatch (None # alternatives) = firstMatch alternatives"
| "firstMatch (Some rest # alternatives) = Some rest"

definition stripPieLabel :: "jstring \<Rightarrow> jstring" where
  "stripPieLabel s =
    (case firstMatch
       [Option.bind (matchLiteral (js ''proto-indo-european'') s) (matchRun isWhiteSpace),
        Option.bind (matchLiteral (js ''pie'') s) (matchRun isWhiteSpace)] of
       None \<Rightarrow> s
     | Some rest \<Rightarrow> rest)"

definition stripLanguageLabel :: "jstring \<Rightarrow> jstring" where
  "stripLanguageLabel s =
    (case firstMatch
       [Option.bind (Option.bind (matchLiteral (js ''proto-'') s) (matchRun isLetterOrHyphen))
          (matchRun isWhiteSpace),
        Option.bind (Option.bind (matchLiteral (js ''old '') s) (matchRun isLetter))
          (matchRun isWhiteSpace),
        Option.bind (Option.bind (matchLiteral (js ''middle '') s) (matchRun isLetter))
          (matchRun isWhiteSpace),
        Option.bind (Option.bind (matchLiteral (js ''ancient '') s) (matchRun isLetter))
          (matchRun isWhiteSpace),
        Option.bind (matchRun isLetter s) (matchRun isWhiteSpace)] of
       None \<Rightarrow> s
     | Some rest \<Rightarrow> rest)"

definition isTrailingPunctuation :: "nat \<Rightarrow> bool" where
  "isTrailingPunctuation c = (c = 46 \<or> c = 44 \<or> c = 59 \<or> c = 58 \<or> c = 33 \<or> c = 63)"

definition normalizeEtymologyKey :: "jstring \<Rightarrow> jstring" where
  "normalizeEtymologyKey etymologyString =
    (if etymologyString = [] then []
     else
       (let normalized = trim etymologyString
        in case pieRootMatch normalized of
             Some rootToken \<Rightarrow> js ''*'' @ toLowerCase rootToken
           | None \<Rightarrow>
               (let stripped = toLowerCase (trim (stripLanguageLabel (stripPieLabel normalized)))
                in if startsWith stripped (js ''*'') then stripped
                   else rev (dropWhile isTrailingPunctuation (rev stripped)))))"

subsection \<open>The index and the enhancement step\<close>

text \<open>
  An \<open>EtymologyConnection\<close> with the fields the index reads, a \<open>WordEntry\<close> of the index and
  an entry of the shortened-forms index (descriptive texts left out). The index is the pair
  of maps of the class; a shortened-forms map that is still \<open>undefined\<close> is the empty map.
\<close>

record EtymRelationship =
  etype :: jstring
  econfidence :: real
  eorigin :: "jstring option"
  esharedRoot :: "jstring option"

record EtymologyConnection =
  eword :: Word
  erelationship :: EtymRelationship

record WordEntry =
  weWord :: jstring
  weLanguage :: jstring
  etymologicalForm :: jstring
  etymologicalLanguage :: jstring
  relationshipType :: jstring
  weConfidence :: real
  weSharedRoot :: jstring

record ShortenedForm =
  sfWord :: jstring
  sfConfidence :: real

record IndexState =
  etymologyDatabase :: "jstring \<rightharpoonup> WordEntry list"
  shortenedFormsDatabase :: "jstring \<rightharpoonup> ShortenedForm list"

definition entriesOf :: "(jstring \<rightharpoonup> 'a list) \<Rightarrow> jstring \<Rightarrow> 'a list" where
  "entriesOf m k = (case m k of None \<Rightarrow> [] | Some xs \<Rightarrow> xs)"

definition recordShortened :: "jstring \<Rightarrow> EtymologyConnection \<Rightarrow> IndexState \<Rightarrow> IndexState" where
  "recordShortened src connection st =
    (if etype (erelationship connection) = js ''shortened_from'' then
       (let k = toLowerCase (wtext (eword connection));
            shortenedForms = entriesOf (shortenedFormsDatabase st) k
        in st\<lparr>shortenedFormsDatabase := (shortenedFormsDatabase st)
                (k \<mapsto> (if list_ex (\<lambda>form. sfWord form = src) shortenedForms then shortenedForms
                        else shortenedForms
                          @ [\<lparr>sfWord = src, sfConfidence = econfidence (erelationship connection)\<rparr>]))\<rparr>)
     else st)"

definition rootOf :: "EtymologyConnection \<Rightarrow> jstring" where
  "rootOf connection =
    orElse (orEmpty (esharedRoot (erelationship connection))) (orEmpty (eorigin (erelationship connection)))"

definition recordRoot :: "jstring \<Rightarrow> EtymologyConnection \<Rightarrow> IndexState \<Rightarrow> IndexState" where
  "recordRoot src connection st =
    (let sharedRoot = orElse (rootOf connection) (wtext (eword connection))
     in if wtext (eword connection) = [] \<or> sharedRoot = [] then st
        else
          (let etymologyKey = normalizeEtymologyKey sharedRoot;
               existingEntries = entriesOf (etymologyDatabase st) etymologyKey;
               wordEntry = \<lparr>weWord = src, weLanguage = js ''en'',
                            etymologicalForm = wtext (eword connection),
                            etymologicalLanguage = wlanguage (eword connection),
                            relationshipType = etype (erelationship connection),
                            weConfidence = econfidence (erelationship connection),
                            weSharedRoot = sharedRoot\<rparr>
           in st\<lparr>etymologyDatabase := (etymologyDatabase st)
                   (etymologyKey \<mapsto> (if list_ex (\<lambda>entry. weWord entry = src) existingEntries
                                      then existingEntries else existingEntries @ [wordEntry]))\<rparr>))"

definition updateEtymologyDatabase :: "jstring \<Rightarrow> EtymologyConnection list \<Rightarrow> IndexState \<Rightarrow> IndexState" where
  "updateEtymologyDatabase src connections0 st =
    foldl (\<lambda>s connection. recordRoot src connection (recordShortened src connection s)) st connections0"

definition genericRoots :: "jstring list" where
  "genericRoots = [js ''*er'', js ''*ed'', js ''*in'', js ''*on'', js ''*an'', js ''*el'',
                   js ''the'', js ''and'', js ''from'']"

definition isValidCrossReferenceConnection :: "jstring \<Rightarrow> jstring \<Rightarrow> jstring \<Rightarrow> bool" where
  "isValidCrossReferenceConnection src targetWord sharedRoot =
    (if src = [] \<or> targetWord = [] \<or> sharedRoot = [] then False
     else if toLowerCase src = toLowerCase targetWord then False
     else if areSemanticallySuspicious src targetWord then False
     else if length (normalizeEtymologyKey sharedRoot) < 3 then False
     else if toLowerCase (normalizeEtymologyKey sharedRoot) \<in> set genericRoots then False
     else True)"

record PotentialCognate =
  pcWord :: jstring
  pcLanguage :: jstring
  pcEtymologicalForm :: jstring
  pcSharedRoot :: jstring
  pcConfidence :: real

definition potentialCognates :: "WordEntry list \<Rightarrow> jstring \<Rightarrow> jstring \<Rightarrow> PotentialCognate list" where
  "potentialCognates relatedWords src sharedRoot =
    map (\<lambda>entry. \<lparr>pcWord = weWord entry, pcLanguage = weLanguage entry,
                   pcEtymologicalForm = etymologicalForm entry, pcSharedRoot = sharedRoot,
                   pcConfidence = min 0.75 (weConfidence entry)\<rparr>)
      (filter (\<lambda>entry. weWord entry \<noteq> src) relatedWords)"

definition validCrossCognates :: "PotentialCognate list \<Rightarrow> jstring \<Rightarrow> PotentialCognate list" where
  "validCrossCognates candidates src =
    filter (\<lambda>cognate. if areSemanticallySuspicious (pcWord cognate) src then False
                       else if pcConfidence cognate < 0.65 then False else True) candidates"

definition topCognates :: "PotentialCognate list \<Rightarrow> PotentialCognate list" where
  "topCognates valid =
    take 2 (sortBy (\<lambda>a b. pcConfidence b - pcConfidence a)
      (filter (\<lambda>cognate. pcConfidence cognate > 0.75) valid))"

definition bidirectionalConnection :: "jstring \<Rightarrow> PotentialCognate \<Rightarrow> EtymologyConnection" where
  "bidirectionalConnection sharedRoot cognate =
    \<lparr>eword = \<lparr>wtext = pcWord cognate, wlanguage = pcLanguage cognate\<rparr>,
     erelationship = \<lparr>etype = js ''etymological_cognate'',
                      econfidence = min (pcConfidence cognate * 0.9) 0.85,
                      eorigin = Some sharedRoot, esharedRoot = Some sharedRoot\<rparr>\<rparr>"

definition crossReferencesFor :: "IndexState \<Rightarrow> jstring \<Rightarrow> EtymologyConnection \<Rightarrow> EtymologyConnection list" where
  "crossReferencesFor st src connection =
    (let sharedRoot = rootOf connection
     in if sharedRoot = [] then []
        else case etymologyDatabase st (normalizeEtymologyKey sharedRoot) of
               None \<Rightarrow> []
             | Some relatedWords \<Rightarrow>
                 if length relatedWords > 1 then
                   (let valid = validCrossCognates (potentialCognates relatedWords src sharedRoot) src
                    in if length valid > 0 then
                         map (bidirectionalConnection sharedRoot)
                           (filter (\<lambda>cognate. isValidCrossReferenceConnection src (pcWord cognate) sharedRoot)
                             (topCognates valid))
                       else [])
                 else [])"

definition reverseConnection :: "jstring \<Rightarrow> ShortenedForm \<Rightarrow> EtymologyConnection" where
  "reverseConnection src shortenedForm =
    \<lparr>eword = \<lparr>wtext = sfWord shortenedForm, wlanguage = js ''en''\<rparr>,
     erelationship = \<lparr>etype = js ''shortened_to'', econfidence = min (sfConfidence shortenedForm) 0.9,
                      eorigin = Some (js ''Shortened form: '' @ sfWord shortenedForm),
                      esharedRoot = Some src\<rparr>\<rparr>"

definition shortenedConnections :: "IndexState \<Rightarrow> jstring \<Rightarrow> EtymologyConnection list" where
  "shortenedConnections st src =
    map (reverseConnection src)
      (filter (\<lambda>shortenedForm. sfConfidence shortenedForm > 0.8
                 \<and> \<not> areSemanticallySuspicious (sfWord shortenedForm) src)
        (entriesOf (shortenedFormsDatabase st) (toLowerCase src)))"

text \<open>
  \<open>enhanceWithCrossReferences\<close>: the connections of the page, then the synthesized cognates
  of every connection's root, then the reverse edges of the shortened forms. The summary
  \<open>crossReferences\<close> of the result is left out.
\<close>

definition enhanceWithCrossReferences :: "IndexState \<Rightarrow> EtymologyConnection list \<Rightarrow> jstring \<Rightarrow> EtymologyConnection list" where
  "enhanceWithCrossReferences st connections0 src =
    connections0 @ concat (map (crossReferencesFor st src) connections0) @ shortenedConnections st src"

text \<open>
  The tail of \<open>fetchEtymologyData\<close> after the page has been parsed: record, then enhance.
\<close>

definition recordAndEnhance :: "IndexState \<Rightarrow> jstring \<Rightarrow> EtymologyConnection list \<Rightarrow> IndexState \<times> EtymologyConnection list" where
  "recordAndEnhance st src parsed =
    (let st' = updateEtymologyDatabase src parsed st
     in (st', enhanceWithCrossReferences st' parsed src))"


subsection \<open>The parse path\<close>






section \<open>Notions used in the statements\<close>

text \<open>
  A candidate the loop of \<open>deduplicateConnections\<close> does not skip, and the invariant of the
  loop: \<open>result\<close> has one connection per key, \<open>seen\<close> maps exactly the keys of \<open>result\<close> to its
  connections, and each of them is an accepted candidate with its language fixed.
\<close>

definition accepted :: "(jstring \<Rightarrow> jstring) \<Rightarrow> Word option \<Rightarrow> NormalizedConnection \<Rightarrow> bool" where
  "accepted lc sw c = (wtext (word c) \<noteq> [] \<and> \<not> isSelfReference lc sw c \<and> \<not> isInvalid lc sw c)"

definition dedupInv ::
  "(jstring \<Rightarrow> jstring) \<Rightarrow> Word option \<Rightarrow> NormalizedConnection list
     \<Rightarrow> (jstring \<rightharpoonup> NormalizedConnection) \<Rightarrow> NormalizedConnection list \<Rightarrow> bool" where
  "dedupInv lc sw processed m res =
    (distinct (map (dedupKey lc) res)
     \<and> (\<forall>c \<in> set res. m (dedupKey lc c) = Some c)
     \<and> (\<forall>k c. m k = Some c \<longrightarrow> c \<in> set res \<and> dedupKey lc c = k)
     \<and> (\<forall>r \<in> set res. \<exists>c \<in> set processed. accepted lc sw c \<and> r = fixPieLanguage lc c))"

text \<open>
  The deduplication key of a word as a pair: its text in lower case, and its language in
  lower case, \<open>und\<close> for an empty language and \<open>ine-pro\<close> for a text that starts with \<open>*\<close>.
\<close>

definition normalizedLanguage :: "(jstring \<Rightarrow> jstring) \<Rightarrow> Word \<Rightarrow> jstring" where
  "normalizedLanguage lc w =
    (if startsWith (lc (wtext w)) (js ''*'') then js ''ine-pro''
     else lc (orElse (wlanguage w) (js ''und'')))"

definition wordKey :: "(jstring \<Rightarrow> jstring) \<Rightarrow> Word \<Rightarrow> jstring \<times> jstring" where
  "wordKey lc w = (lc (wtext w), normalizedLanguage lc w)"

text \<open>The tier of a priority tag as the claim has it, and the order of the final list.\<close>

definition tierNumber :: "NormalizedConnection \<Rightarrow> nat" where
  "tierNumber c =
    (if priority (relationship c) = Some (js ''high'') then 3
     else if priority (relationship c) = Some (js ''medium'') then 2
     else if priority (relationship c) = Some (js ''low'') then 1 else 0)"


text \<open>A priority tag that is not the name of an inherited member.\<close>

definition plainPriority :: "NormalizedConnection \<Rightarrow> bool" where
  "plainPriority c =
    (case priority (relationship c) of None \<Rightarrow> True | Some p \<Rightarrow> p \<notin> set objectPrototypeNames)"

text \<open>
  The source word of a query, and the reachable states of the result cache: every entry was
  stored by a call of \<open>findEtymologicalConnections\<close>, under the key of that call and with the
  result that call computed from what its fetches delivered.
\<close>

definition queryWord :: "(jstring \<Rightarrow> jstring) \<Rightarrow> jstring \<Rightarrow> jstring option \<Rightarrow> Word" where
  "queryWord lc w language =
    \<lparr>wtext = trim w, wlanguage = lc (orElse (orEmpty language) (js ''en''))\<rparr>"

definition storedBy :: "(jstring \<Rightarrow> jstring) \<Rightarrow> jstring \<Rightarrow> EtymologyData \<Rightarrow> bool" where
  "storedBy lc k r =
    (\<exists>w language results.
        trim w \<noteq> []
      \<and> k = cacheKey lc (wlanguage (queryWord lc w language)) (trim w)
      \<and> lookupConnections lc (trim w) (wlanguage (queryWord lc w language)) results = Inr r)"

definition reachableCache :: "(jstring \<Rightarrow> jstring) \<Rightarrow> cache \<Rightarrow> bool" where
  "reachableCache lc cache = (\<forall>k r. cache k = Some r \<longrightarrow> storedBy lc k r)"

text \<open>What the three fetches deliver, by position, when each is fulfilled.\<close>

definition fetched ::
  "WiktionaryData option \<Rightarrow> DictionaryEntry option \<Rightarrow> EtymonlineData option \<Rightarrow> FetchResults" where
  "fetched wk dc et =
    \<lparr>wiktionaryResult = Fulfilled wk, dictionaryResult = Fulfilled dc, etymonlineResult = Fulfilled et\<rparr>"

definition candidatesOnly :: "RawConnection list \<Rightarrow> WiktionaryData" where
  "candidatesOnly cs = \<lparr>wkDefinitions = [], wkPartOfSpeech = [], wkConnections = Some cs\<rparr>"

definition rawCandidate :: "string \<Rightarrow> string \<Rightarrow> string \<Rightarrow> jsnumber \<Rightarrow> RawConnection" where
  "rawCandidate t l ty x =
    \<lparr>rawWord = Some \<lparr>rawText = Some (js t), rawLanguage = LanguageText (js l)\<rparr>,
     rawRelationship = Some \<lparr>rawType = Some (js ty), rawConfidence = Some x\<rparr>\<rparr>"

definition stampedConnection ::
  "string \<Rightarrow> string \<Rightarrow> string \<Rightarrow> jsnumber \<Rightarrow> string \<Rightarrow> string \<Rightarrow> NormalizedConnection" where
  "stampedConnection t l ty x p s =
    \<lparr>word = \<lparr>wtext = js t, wlanguage = js l\<rparr>,
     relationship = \<lparr>rtype = js ty, confidence = x, priority = Some (js p), source = Some (js s)\<rparr>\<rparr>"

text \<open>The confidence \<open>normalizeConnection\<close> gives a candidate, and the boost of etymonline.\<close>

definition candidateConfidence :: "RawConnection \<Rightarrow> jsnumber" where
  "candidateConfidence k =
    (case rawRelationship k of
       None \<Rightarrow> Finite 0.5
     | Some rel \<Rightarrow> (case rawConfidence rel of None \<Rightarrow> Finite 0.5 | Some x \<Rightarrow> x))"

definition boosted :: "jsnumber \<Rightarrow> jsnumber" where
  "boosted x = (if truthy x then mathMin (numPlus x 0.1) 0.95 else x)"

text \<open>The candidates the loops of the entry point run over.\<close>

definition wkCandidates :: "WiktionaryData option \<Rightarrow> RawConnection list" where
  "wkCandidates wk =
    (case wk of None \<Rightarrow> [] | Some d \<Rightarrow> (case wkConnections d of None \<Rightarrow> [] | Some ks \<Rightarrow> ks))"

definition etCandidates :: "EtymonlineData option \<Rightarrow> RawConnection list" where
  "etCandidates et =
    (case et of None \<Rightarrow> [] | Some d \<Rightarrow> (case etConnections d of None \<Rightarrow> [] | Some ks \<Rightarrow> ks))"

definition wiktionaryCandidates :: "FetchResults \<Rightarrow> RawConnection list" where
  "wiktionaryCandidates results = wkCandidates (settledValue (wiktionaryResult results))"

definition etymonlineCandidates :: "FetchResults \<Rightarrow> RawConnection list" where
  "etymonlineCandidates results = etCandidates (settledValue (etymonlineResult results))"





definition emptyIndex :: IndexState where
  "emptyIndex = \<lparr>etymologyDatabase = Map.empty, shortenedFormsDatabase = Map.empty\<rparr>"

definition pieWed :: EtymologyConnection where
  "pieWed =
    \<lparr>eword = \<lparr>wtext = js ''*wed-'', wlanguage = js ''ine-pro''\<rparr>,
     erelationship = \<lparr>etype = js ''etymology'', econfidence = 0.9, eorigin = None,
                      esharedRoot = Some (js ''PIE *wed-'')\<rparr>\<rparr>"

section \<open>Auxiliary lemmas\<close>

lemma comparisonText_fix [simp]: "comparisonText lc (fixPieLanguage lc c) = comparisonText lc c"
  by (simp add: comparisonText_def fixPieLanguage_def)
lemma comparisonLang_fix [simp]: "comparisonLang lc (fixPieLanguage lc c) = comparisonLang lc c"
  by (simp add: comparisonLang_def fixPieLanguage_def comparisonText_def)
lemma dedupKey_fix [simp]: "dedupKey lc (fixPieLanguage lc c) = dedupKey lc c"
  by (simp add: dedupKey_def)
lemma relationship_fix [simp]: "relationship (fixPieLanguage lc c) = relationship c"
  by (simp add: fixPieLanguage_def)
lemma wtext_fix [simp]: "wtext (word (fixPieLanguage lc c)) = wtext (word c)"
  by (simp add: fixPieLanguage_def)
lemma indexOf_less: "indexOf xs x = Some i \<Longrightarrow> i < length xs"
  by (induction xs arbitrary: i) (auto split: if_splits)
lemma indexOf_nth: "indexOf xs x = Some i \<Longrightarrow> xs ! i = x"
  by (induction xs arbitrary: i) (auto split: if_splits)
lemma indexOf_mem: "x \<in> set xs \<Longrightarrow> \<exists>i. indexOf xs x = Some i"
  by (induction xs) auto
lemma replaceExisting_keys:
  assumes "existing \<in> set res" and "dedupKey lc fixed = dedupKey lc existing"
  shows "map (dedupKey lc) (replaceExisting res existing fixed) = map (dedupKey lc) res"
proof -
  from indexOf_mem [OF assms(1)] obtain i where i: "indexOf res existing = Some i" ..
  have lt: "i < length res" by (rule indexOf_less [OF i])
  have nth: "res ! i = existing" by (rule indexOf_nth [OF i])
  have "(map (dedupKey lc) res)[i := dedupKey lc fixed] = map (dedupKey lc) res"
    using lt nth assms(2) by (simp add: list_update_same_conv)
  then have "map (dedupKey lc) (res[i := fixed]) = map (dedupKey lc) res"
    by (simp add: map_update)
  then show ?thesis
    by (simp add: replaceExisting_def i)
qed
lemma replaceExisting_set:
  assumes "existing \<in> set res" and "distinct res"
  shows "set (replaceExisting res existing fixed) = insert fixed (set res - {existing})"
proof -
  from indexOf_mem [OF assms(1)] obtain i where i: "indexOf res existing = Some i" ..
  have lt: "i < length res" by (rule indexOf_less [OF i])
  have nth: "res ! i = existing" by (rule indexOf_nth [OF i])
  have "set (res[i := fixed]) = insert fixed (set res - {res ! i})"
    using assms(2) lt by (rule set_update_distinct)
  then show ?thesis
    by (simp add: replaceExisting_def i nth)
qed
lemma dedupInv_init: "dedupInv lc sw [] Map.empty []"
  by (simp add: dedupInv_def)
lemma dedupInv_skip:
  assumes "dedupInv lc sw ps m res"
  shows "dedupInv lc sw (ps @ [c]) m res"
  using assms unfolding dedupInv_def by auto
lemma dedupInv_new:
  assumes inv: "dedupInv lc sw ps m res" and acc: "accepted lc sw c" and none: "m (dedupKey lc c) = None"
  shows "dedupInv lc sw (ps @ [c]) (m(dedupKey lc c \<mapsto> fixPieLanguage lc c)) (res @ [fixPieLanguage lc c])"
proof -
  from inv have D: "distinct (map (dedupKey lc) res)"
    and R: "\<forall>x \<in> set res. m (dedupKey lc x) = Some x"
    and S: "\<forall>k x. m k = Some x \<longrightarrow> x \<in> set res \<and> dedupKey lc x = k"
    and O: "\<forall>r \<in> set res. \<exists>x \<in> set ps. accepted lc sw x \<and> r = fixPieLanguage lc x"
    unfolding dedupInv_def by simp_all
  have fresh: "\<forall>x \<in> set res. dedupKey lc x \<noteq> dedupKey lc c"
    using R none by force
  have 1: "distinct (map (dedupKey lc) (res @ [fixPieLanguage lc c]))"
    using D fresh by auto
  have 2: "\<forall>x \<in> set (res @ [fixPieLanguage lc c]).
             (m(dedupKey lc c \<mapsto> fixPieLanguage lc c)) (dedupKey lc x) = Some x"
    using R fresh by auto
  have 3: "\<forall>k x. (m(dedupKey lc c \<mapsto> fixPieLanguage lc c)) k = Some x
             \<longrightarrow> x \<in> set (res @ [fixPieLanguage lc c]) \<and> dedupKey lc x = k"
    using S by auto
  have 4: "\<forall>r \<in> set (res @ [fixPieLanguage lc c]).
             \<exists>x \<in> set (ps @ [c]). accepted lc sw x \<and> r = fixPieLanguage lc x"
    using O acc by auto
  show ?thesis
    unfolding dedupInv_def using 1 2 3 4 by blast
qed
lemma dedupInv_replace:
  assumes inv: "dedupInv lc sw ps m res" and acc: "accepted lc sw c"
    and some: "m (dedupKey lc c) = Some existing"
  shows "dedupInv lc sw (ps @ [c]) (m(dedupKey lc c \<mapsto> fixPieLanguage lc c))
           (replaceExisting res existing (fixPieLanguage lc c))"
proof -
  from inv have D: "distinct (map (dedupKey lc) res)"
    and R: "\<forall>x \<in> set res. m (dedupKey lc x) = Some x"
    and S: "\<forall>k x. m k = Some x \<longrightarrow> x \<in> set res \<and> dedupKey lc x = k"
    and O: "\<forall>r \<in> set res. \<exists>x \<in> set ps. accepted lc sw x \<and> r = fixPieLanguage lc x"
    unfolding dedupInv_def by simp_all
  from S some have ex: "existing \<in> set res" and exk: "dedupKey lc existing = dedupKey lc c"
    by simp_all
  have dres: "distinct res"
    using D by (simp add: distinct_map)
  have keys: "map (dedupKey lc) (replaceExisting res existing (fixPieLanguage lc c)) = map (dedupKey lc) res"
    using ex exk by (simp add: replaceExisting_keys)
  have elems: "set (replaceExisting res existing (fixPieLanguage lc c))
                 = insert (fixPieLanguage lc c) (set res - {existing})"
    using ex dres by (rule replaceExisting_set)
  have uniq: "\<forall>x \<in> set res. dedupKey lc x = dedupKey lc c \<longrightarrow> x = existing"
    using R some by force
  have 1: "distinct (map (dedupKey lc) (replaceExisting res existing (fixPieLanguage lc c)))"
    using D keys by simp
  have 2: "\<forall>x \<in> set (replaceExisting res existing (fixPieLanguage lc c)).
             (m(dedupKey lc c \<mapsto> fixPieLanguage lc c)) (dedupKey lc x) = Some x"
    unfolding elems using R uniq by auto
  have 3: "\<forall>k x. (m(dedupKey lc c \<mapsto> fixPieLanguage lc c)) k = Some x
             \<longrightarrow> x \<in> set (replaceExisting res existing (fixPieLanguage lc c)) \<and> dedupKey lc x = k"
    unfolding elems using S exk by auto
  have 4: "\<forall>r \<in> set (replaceExisting res existing (fixPieLanguage lc c)).
             \<exists>x \<in> set (ps @ [c]). accepted lc sw x \<and> r = fixPieLanguage lc x"
    unfolding elems using O acc by auto
  show ?thesis
    unfolding dedupInv_def using 1 2 3 4 by blast
qed
lemma dedupStep_skip: "\<not> accepted lc sw c \<Longrightarrow> dedupStep lc sw st c = st"
  by (auto simp: dedupStep_def accepted_def)
lemma dedupStep_cases:
  assumes "accepted lc sw c"
  shows "(seen st (dedupKey lc c) = None
            \<and> dedupStep lc sw st c
                = st\<lparr>seen := (seen st)(dedupKey lc c \<mapsto> fixPieLanguage lc c),
                      result := result st @ [fixPieLanguage lc c]\<rparr>)
       \<or> (\<exists>existing. seen st (dedupKey lc c) = Some existing
            \<and> (dedupStep lc sw st c
                 = st\<lparr>seen := (seen st)(dedupKey lc c \<mapsto> fixPieLanguage lc c),
                       result := replaceExisting (result st) existing (fixPieLanguage lc c)\<rparr>
               \<or> dedupStep lc sw st c = st))"
  using assms by (cases "seen st (dedupKey lc c)") (auto simp: dedupStep_def Let_def accepted_def)
lemma dedupStep_inv:
  assumes inv: "dedupInv lc sw ps (seen st) (result st)"
  shows "dedupInv lc sw (ps @ [c]) (seen (dedupStep lc sw st c)) (result (dedupStep lc sw st c))"
proof (cases "accepted lc sw c")
  case False
  then show ?thesis
    using inv by (simp add: dedupStep_skip dedupInv_skip)
next
  case acc: True
  from dedupStep_cases [OF acc, of st] show ?thesis
  proof (elim disjE conjE exE)
    assume none: "seen st (dedupKey lc c) = None"
      and step: "dedupStep lc sw st c
                = st\<lparr>seen := (seen st)(dedupKey lc c \<mapsto> fixPieLanguage lc c),
                      result := result st @ [fixPieLanguage lc c]\<rparr>"
    show ?thesis
      using dedupInv_new [OF inv acc none] by (simp add: step)
  next
    fix existing
    assume some: "seen st (dedupKey lc c) = Some existing"
      and step: "dedupStep lc sw st c
                 = st\<lparr>seen := (seen st)(dedupKey lc c \<mapsto> fixPieLanguage lc c),
                       result := replaceExisting (result st) existing (fixPieLanguage lc c)\<rparr>"
    show ?thesis
      using dedupInv_replace [OF inv acc some] by (simp add: step)
  next
    fix existing
    assume step: "dedupStep lc sw st c = st"
    show ?thesis
      using dedupInv_skip [OF inv] by (simp add: step)
  qed
qed
lemma dedupFold_inv:
  "dedupInv lc sw ps (seen st) (result st)
    \<Longrightarrow> dedupInv lc sw (ps @ cs) (seen (foldl (dedupStep lc sw) st cs))
          (result (foldl (dedupStep lc sw) st cs))"
proof (induction cs arbitrary: ps st)
  case Nil
  then show ?case by simp
next
  case (Cons c cs)
  from Cons.IH [OF dedupStep_inv [OF Cons.prems, of c]] show ?case by simp
qed
lemma deduplicate_inv:
  "dedupInv lc sw cs (seen (foldl (dedupStep lc sw) \<lparr>seen = Map.empty, result = []\<rparr> cs))
     (deduplicateConnections lc cs sw)"
  using dedupFold_inv [of lc sw "[]" "\<lparr>seen = Map.empty, result = []\<rparr>" cs]
  by (simp add: dedupInv_init deduplicateConnections_def)
lemma dedup_distinct_keys: "distinct (map (dedupKey lc) (deduplicateConnections lc cs sw))"
  using deduplicate_inv [of lc sw cs] by (simp add: dedupInv_def)
lemma dedup_origin:
  "r \<in> set (deduplicateConnections lc cs sw)
    \<Longrightarrow> \<exists>c \<in> set cs. accepted lc sw c \<and> r = fixPieLanguage lc c"
  using deduplicate_inv [of lc sw cs] by (simp add: dedupInv_def)
lemma set_insertBy [simp]: "set (insertBy cmp a xs) = insert a (set xs)"
  by (induction xs) auto
lemma sortBy_Nil [simp]: "sortBy cmp [] = []"
  by (simp add: sortBy_def)
lemma sortBy_Cons [simp]: "sortBy cmp (a # xs) = insertBy cmp a (sortBy cmp xs)"
  by (simp add: sortBy_def)
lemma set_sortBy [simp]: "set (sortBy cmp xs) = set xs"
  by (induction xs) simp_all
lemma distinct_map_insertBy:
  "distinct (map f (insertBy cmp a xs)) = (f a \<notin> f ` set xs \<and> distinct (map f xs))"
  by (induction xs) auto
lemma distinct_map_sortBy: "distinct (map f (sortBy cmp xs)) = distinct (map f xs)"
  by (induction xs) (simp_all add: distinct_map_insertBy)



lemma orZero_not_NaN [simp]: "orZero x \<noteq> NaN"
  by (cases x) (simp_all add: orZero_def)








lemma merge_distinct: "distinct (map (dedupKey lc) (mergeConnections lc cs sw))"
  by (simp add: mergeConnections_def sortConnections_def distinct_map_sortBy dedup_distinct_keys)

lemma merge_origin:
  assumes "r \<in> set (mergeConnections lc cs sw)"
  shows "\<exists>c \<in> set cs. \<not> isTrivialDerivative lc (wtext sw) (wtext (word c)) (wlanguage sw) (wlanguage (word c))
           \<and> accepted lc (Some sw) c \<and> r = fixPieLanguage lc c"
proof -
  from assms have "r \<in> set (deduplicateConnections lc
      (filter (\<lambda>connection. \<not> isTrivialDerivative lc (wtext sw) (wtext (word connection))
                                  (wlanguage sw) (wlanguage (word connection))) cs) (Some sw))"
    by (simp add: mergeConnections_def sortConnections_def)
  from dedup_origin [OF this] show ?thesis by auto
qed

lemma plainPriority_fix [simp]: "plainPriority (fixPieLanguage lc c) = plainPriority c"
  by (simp add: plainPriority_def)

lemma tierNumber_fix [simp]: "tierNumber (fixPieLanguage lc c) = tierNumber c"
  by (simp add: tierNumber_def)

lemma lowerUnit_star: "lowerUnit c = 42 \<longleftrightarrow> c = 42"
  by (auto simp: lowerUnit_def)

lemma startsWith_star: "startsWith s [42] \<longleftrightarrow> (\<exists>t. s = 42 # t)"
  by (cases s) (auto simp: startsWith_def)

lemma startsWith_star_lower: "startsWith (toLowerCase s) [42] = startsWith s [42]"
  by (cases s) (auto simp: startsWith_def toLowerCase_def lowerUnit_star)

lemma star_not_element: "startsWith s [42] \<Longrightarrow> toLowerCase s \<notin> set basicElements"
  by (auto simp: startsWith_star basicElements_def toLowerCase_def lowerUnit_def)

lemma star_not_suspiciousColor: "startsWith s [42] \<Longrightarrow> toLowerCase s \<notin> set suspiciousColors"
  by (auto simp: startsWith_star suspiciousColors_def toLowerCase_def lowerUnit_def)

lemma star_not_suspiciousNumber: "startsWith s [42] \<Longrightarrow> toLowerCase s \<notin> set suspiciousNumbers"
  by (auto simp: startsWith_star suspiciousNumbers_def toLowerCase_def lowerUnit_def)

lemma suspicious_star_left: "startsWith w [42] \<Longrightarrow> \<not> areSemanticallySuspicious w src"
  by (simp add: areSemanticallySuspicious_def Let_def star_not_element star_not_suspiciousColor
      star_not_suspiciousNumber startsWith_star_lower)

lemma suspicious_star_right: "startsWith w [42] \<Longrightarrow> \<not> areSemanticallySuspicious src w"
  by (simp add: areSemanticallySuspicious_def Let_def star_not_element star_not_suspiciousColor
      star_not_suspiciousNumber startsWith_star_lower)

lemma unrelated_star_left: "startsWith w [42] \<Longrightarrow> \<not> areSemanticallyUnrelated lc w src"
  by (simp add: areSemanticallyUnrelated_def Let_def)

lemma unrelated_star_right: "startsWith w [42] \<Longrightarrow> \<not> areSemanticallyUnrelated lc src w"
  by (simp add: areSemanticallyUnrelated_def Let_def)

lemma topCognates_empty: "topCognates (validCrossCognates (potentialCognates relatedWords src sharedRoot) src) = []"
proof -
  have "filter (\<lambda>cognate. pcConfidence cognate > 0.75)
          (validCrossCognates (potentialCognates relatedWords src sharedRoot) src) = []"
    by (auto simp: filter_empty_conv validCrossCognates_def potentialCognates_def)
  then show ?thesis
    by (simp add: topCognates_def)
qed

lemma crossReferencesFor_empty: "crossReferencesFor st src connection = []"
  by (simp add: crossReferencesFor_def Let_def topCognates_empty split: option.splits)


lemma isWhiteSpace_lowerUnit [simp]: "isWhiteSpace (lowerUnit c) = isWhiteSpace c"
  by (auto simp: isWhiteSpace_def lowerUnit_def)

lemma trim_toLowerCase: "trim (toLowerCase s) = toLowerCase (trim s)"
  by (simp add: trim_def toLowerCase_def dropWhile_map rev_map comp_def)

lemma dropWhile_rev_ends:
  assumes "\<not> P a"
  shows "\<exists>u. dropWhile P (rev (a # t)) = u @ [a]"
proof (cases "\<forall>x \<in> set (rev t). P x")
  case True
  then have "dropWhile P (rev t @ [a]) = [a]"
    using assms by (simp add: dropWhile_append)
  then show ?thesis by simp
next
  case False
  then have "dropWhile P (rev t @ [a]) = dropWhile P (rev t) @ [a]"
    by (simp add: dropWhile_append)
  then show ?thesis by simp
qed

lemma trim_idem [simp]: "trim (trim s) = trim s"
proof (cases "dropWhile isWhiteSpace s")
  case Nil
  show ?thesis unfolding trim_def Nil by simp
next
  case (Cons a t)
  then have na: "\<not> isWhiteSpace a"
    by (metis hd_dropWhile list.discI list.sel(1))
  from dropWhile_rev_ends [of isWhiteSpace a t, OF na] obtain u
    where u: "dropWhile isWhiteSpace (rev (a # t)) = u @ [a]" ..
  have 1: "trim s = a # rev u"
    unfolding trim_def Cons u by simp
  have d1: "dropWhile isWhiteSpace (a # rev u) = a # rev u"
    using na by simp
  have "dropWhile isWhiteSpace (dropWhile isWhiteSpace (rev (a # t)))
          = dropWhile isWhiteSpace (rev (a # t))"
    by (rule dropWhile_idem)
  then have d2: "dropWhile isWhiteSpace (u @ [a]) = u @ [a]"
    unfolding u .
  have 2: "trim (a # rev u) = a # rev u"
    unfolding trim_def d1 using d2 by simp
  show ?thesis unfolding 1 2 ..
qed

lemma dedupKey_wordKey:
  "dedupKey lc c = fst (wordKey lc (word c)) @ js ''_'' @ snd (wordKey lc (word c))"
  by (simp add: dedupKey_def wordKey_def normalizedLanguage_def comparisonText_def comparisonLang_def)

lemma wordKey_fix [simp]: "wordKey lc (word (fixPieLanguage lc c)) = wordKey lc (word c)"
  by (simp add: wordKey_def normalizedLanguage_def fixPieLanguage_def comparisonText_def)

lemma distinct_wordKeys:
  assumes "distinct (map (dedupKey lc) cs)"
  shows "distinct (map (\<lambda>c. wordKey lc (word c)) cs)"
proof -
  have "map (dedupKey lc) cs
          = map (\<lambda>k. fst k @ js ''_'' @ snd k) (map (\<lambda>c. wordKey lc (word c)) cs)"
    by (simp add: dedupKey_wordKey)
  with assms show ?thesis
    by (metis distinct_map)
qed

lemma nontrivial_text:
  assumes "\<not> isTrivialDerivative lc s t ls lt"
  shows "lc t \<noteq> lc s"
proof -
  from assms have "trim (lc s) \<noteq> trim (lc t)"
    by (auto simp: isTrivialDerivative_def Let_def split: if_splits)
  then show ?thesis by auto
qed

lemma lowerUnit_idem [simp]: "lowerUnit (lowerUnit c) = lowerUnit c"
  by (auto simp: lowerUnit_def)

lemma toLowerCase_idem [simp]: "toLowerCase (toLowerCase s) = toLowerCase s"
  by (simp add: toLowerCase_def)

lemma isRootChar_lowerUnit: "isRootChar c \<Longrightarrow> isRootChar (lowerUnit c)"
  by (auto simp: isRootChar_def lowerUnit_def)

lemma isRootChar_not_white: "isRootChar c \<Longrightarrow> \<not> isWhiteSpace c"
  by (auto simp: isRootChar_def isWhiteSpace_def)

lemma pieRootMatch_Some:
  "pieRootMatch s = Some m \<Longrightarrow> m \<noteq> [] \<and> (\<forall>c \<in> set m. isRootChar c)"
proof (induction s)
  case Nil
  then show ?case by simp
next
  case (Cons a s)
  show ?case
  proof (cases "a = 42 \<and> takeWhile isRootChar s \<noteq> []")
    case True
    with Cons.prems have "m = takeWhile isRootChar s" by simp
    with True show ?thesis by (auto dest: set_takeWhileD)
  next
    case False
    with Cons.prems have "pieRootMatch s = Some m" by auto
    then show ?thesis by (rule Cons.IH)
  qed
qed

lemma dropWhile_none: "\<forall>c \<in> set s. \<not> P c \<Longrightarrow> dropWhile P s = s"
  by (cases s) simp_all

lemma trim_no_white: "\<forall>c \<in> set s. \<not> isWhiteSpace c \<Longrightarrow> trim s = s"
  by (simp add: trim_def dropWhile_none)

lemma key_of_root_token:
  assumes "m \<noteq> []" and "\<forall>c \<in> set m. isRootChar c"
  shows "normalizeEtymologyKey (42 # toLowerCase m) = 42 # toLowerCase m"
proof -
  let ?lm = "toLowerCase m"
  have root: "\<forall>c \<in> set ?lm. isRootChar c"
    using assms(2) by (auto simp: toLowerCase_def isRootChar_lowerUnit)
  have w42: "\<not> isWhiteSpace 42"
    by (simp add: isWhiteSpace_def)
  have nw: "\<forall>c \<in> set (42 # ?lm). \<not> isWhiteSpace c"
    using root w42 isRootChar_not_white by auto
  have tr: "trim (42 # ?lm) = 42 # ?lm"
    by (rule trim_no_white [OF nw])
  have tw: "takeWhile isRootChar ?lm = ?lm"
    using root by (simp add: takeWhile_eq_all_conv)
  have ne: "?lm \<noteq> []"
    using assms(1) by (simp add: toLowerCase_def)
  have "pieRootMatch (42 # ?lm)
          = (if takeWhile isRootChar ?lm \<noteq> [] then Some (takeWhile isRootChar ?lm)
             else pieRootMatch ?lm)"
    by simp
  then have pm: "pieRootMatch (42 # ?lm) = Some ?lm"
    unfolding tw using ne by simp
  show ?thesis
    unfolding normalizeEtymologyKey_def Let_def tr pm by simp
qed

lemma matchRun_white_None: "\<forall>c \<in> set x. \<not> isWhiteSpace c \<Longrightarrow> matchRun isWhiteSpace x = None"
  by (cases x) (simp_all add: matchRun_def)

lemma matchLiteral_set: "matchLiteral lit s = Some y \<Longrightarrow> set y \<subseteq> set s"
  by (auto simp: matchLiteral_def split: if_splits dest: in_set_dropD)

lemma matchRun_set: "matchRun P s = Some y \<Longrightarrow> set y \<subseteq> set s"
  by (auto simp: matchRun_def split: if_splits dest: set_dropWhileD)

lemma bind_white_None:
  assumes "\<forall>c \<in> set r. \<not> isWhiteSpace c" and "\<And>y. opt = Some y \<Longrightarrow> set y \<subseteq> set r"
  shows "Option.bind opt (matchRun isWhiteSpace) = None"
proof (cases opt)
  case None
  then show ?thesis by simp
next
  case (Some y)
  with assms have "\<forall>c \<in> set y. \<not> isWhiteSpace c" by blast
  then show ?thesis using Some by (simp add: matchRun_white_None)
qed

lemma bind_matchRun_set:
  assumes "Option.bind (matchLiteral lit r) (matchRun P) = Some y"
  shows "set y \<subseteq> set r"
proof -
  from assms obtain z where z: "matchLiteral lit r = Some z" and y: "matchRun P z = Some y"
    by (cases "matchLiteral lit r") simp_all
  from matchLiteral_set [OF z] matchRun_set [OF y] show ?thesis by blast
qed

lemma stripPieLabel_no_white:
  assumes "\<forall>c \<in> set r. \<not> isWhiteSpace c"
  shows "stripPieLabel r = r"
proof -
  have "Option.bind (matchLiteral lit r) (matchRun isWhiteSpace) = None" for lit
    by (rule bind_white_None [OF assms]) (rule matchLiteral_set)
  then show ?thesis
    unfolding stripPieLabel_def by simp
qed

lemma stripLanguageLabel_no_white:
  assumes "\<forall>c \<in> set r. \<not> isWhiteSpace c"
  shows "stripLanguageLabel r = r"
proof -
  have 1: "Option.bind (Option.bind (matchLiteral lit r) (matchRun P)) (matchRun isWhiteSpace) = None"
    for lit P
    by (rule bind_white_None [OF assms]) (rule bind_matchRun_set)
  have 2: "Option.bind (matchRun P r) (matchRun isWhiteSpace) = None" for P
    by (rule bind_white_None [OF assms]) (rule matchRun_set)
  show ?thesis
    unfolding stripLanguageLabel_def 1 2 by simp
qed

lemma key_fixed:
  assumes nw: "\<forall>c \<in> set r. \<not> isWhiteSpace c" and np: "pieRootMatch r = None"
    and low: "toLowerCase r = r"
    and pun: "startsWith r [42] \<or> rev (dropWhile isTrailingPunctuation (rev r)) = r"
  shows "normalizeEtymologyKey r = r"
proof (cases "r = []")
  case True
  then show ?thesis by (simp add: normalizeEtymologyKey_def)
next
  case False
  have tr: "trim r = r" by (rule trim_no_white [OF nw])
  have "normalizeEtymologyKey r
          = (if startsWith r [42] then r else rev (dropWhile isTrailingPunctuation (rev r)))"
    using False
    by (simp add: normalizeEtymologyKey_def Let_def tr np stripPieLabel_no_white [OF nw]
        stripLanguageLabel_no_white [OF nw] low)
  with pun show ?thesis by auto
qed

lemma key_shape:
  assumes "s \<noteq> []" and "pieRootMatch (trim s) = None"
  shows "toLowerCase (normalizeEtymologyKey s) = normalizeEtymologyKey s
       \<and> (startsWith (normalizeEtymologyKey s) [42]
           \<or> rev (dropWhile isTrailingPunctuation (rev (normalizeEtymologyKey s)))
               = normalizeEtymologyKey s)"
proof -
  define stripped where "stripped = toLowerCase (trim (stripLanguageLabel (stripPieLabel (trim s))))"
  have k: "normalizeEtymologyKey s
            = (if startsWith stripped [42] then stripped
               else rev (dropWhile isTrailingPunctuation (rev stripped)))"
    using assms by (simp add: normalizeEtymologyKey_def Let_def stripped_def)
  have sl: "toLowerCase stripped = stripped"
    by (simp add: stripped_def)
  show ?thesis
  proof (cases "startsWith stripped [42]")
    case True
    with k sl show ?thesis by simp
  next
    case False
    let ?r = "rev (dropWhile isTrailingPunctuation (rev stripped))"
    from False k have kr: "normalizeEtymologyKey s = ?r" by simp
    have "\<forall>c \<in> set ?r. lowerUnit c = c"
    proof
      fix c assume "c \<in> set ?r"
      then have "c \<in> set stripped" by (auto dest: set_dropWhileD)
      then have "c \<in> set (map lowerUnit stripped)"
        using sl by (simp add: toLowerCase_def)
      then show "lowerUnit c = c" by auto
    qed
    then have "map lowerUnit ?r = ?r"
      by (intro map_idI) blast
    then have "toLowerCase ?r = ?r"
      unfolding toLowerCase_def .
    moreover have "rev (dropWhile isTrailingPunctuation (rev ?r)) = ?r"
      by (simp add: dropWhile_idem)
    ultimately show ?thesis
      unfolding kr by simp
  qed
qed
lemma cognateStep_subset: "set (unique (cognateStep lc st g)) \<subseteq> insert g (set (unique st))"
proof (cases "cseen st (cognateKey lc g)")
  case None
  then show ?thesis by (auto simp: cognateStep_def)
next
  case (Some existing)
  show ?thesis
  proof (cases "indexOf (unique st) existing")
    case None
    with Some show ?thesis by (auto simp: cognateStep_def)
  next
    case (Some i)
    have "set ((unique st)[i := g]) \<subseteq> insert g (set (unique st))"
      by (rule set_update_subset_insert)
    with Some \<open>cseen st (cognateKey lc g) = Some existing\<close> show ?thesis
      by (auto simp: cognateStep_def)
  qed
qed

lemma cognateFold_subset: "set (unique (foldl (cognateStep lc) st gs)) \<subseteq> set (unique st) \<union> set gs"
proof (induction gs arbitrary: st)
  case Nil
  then show ?case by simp
next
  case (Cons g gs)
  have "set (unique (foldl (cognateStep lc) (cognateStep lc st g) gs))
          \<subseteq> set (unique (cognateStep lc st g)) \<union> set gs"
    by (rule Cons.IH)
  with cognateStep_subset [of lc st g] show ?case by auto
qed

lemma deduplicateCognates_subset: "set (deduplicateCognates lc gs) \<subseteq> set gs"
  using cognateFold_subset [of lc "\<lparr>cseen = Map.empty, unique = []\<rparr>" gs]
  by (simp add: deduplicateCognates_def)

lemma findCognates_subset:
  "set (findCognates lc w l ls)
     \<subseteq> set (findDirectCognates lc (trim (lc w)) l ls)
       \<union> set (applySoundChangeRules (trim (lc w)) l ls)"
  using deduplicateCognates_subset
    [of lc "findDirectCognates lc (trim (lc w)) l ls @ applySoundChangeRules (trim (lc w)) l ls"]
  by (simp add: findCognates_def Let_def sortCognates_def)

lemma ruleCognate_Some:
  "ruleCognate w targetLang rule = Some g
    \<Longrightarrow> cconfidence g = 0.75 \<and> semanticField g = None \<and> concept g = None"
  by (auto simp: ruleCognate_def split: if_splits option.splits)

lemma soundChange_shape:
  assumes "g \<in> set (applySoundChangeRules w l ls)"
  shows "cconfidence g = 0.75 \<and> semanticField g = None \<and> concept g = None"
proof -
  from assms obtain targetLang rule where "ruleCognate w targetLang rule = Some g"
    by (auto simp: applySoundChangeRules_def List.map_filter_def split: if_splits)
  then show ?thesis by (rule ruleCognate_Some)
qed

lemma directCognate_shape:
  assumes "g \<in> set (findDirectCognates lc w l ls)"
  shows "cconfidence g = 0.95 \<and> semanticField g \<noteq> None \<and> concept g \<noteq> None
       \<and> crelationship g = js ''cognate''"
proof -
  from assms obtain f k ll cw where "g = directCognate f k ll cw"
    by (auto simp: findDirectCognates_def conceptCognates_def Let_def split: if_splits option.splits)
  then show ?thesis by (simp add: directCognate_def)
qed

lemma validCognates_direct:
  assumes "g \<in> set (validCognates lc w l)"
  shows "g \<in> set (findDirectCognates lc (trim (lc w)) l cognateLanguages)"
    and "g \<notin> set (applySoundChangeRules (trim (lc w)) l cognateLanguages)"
    and "cconfidence g \<ge> 0.85"
proof -
  from assms have mem: "g \<in> set (findCognates lc w l cognateLanguages)"
    and ok: "isValidCognate lc w l g"
    by (simp_all add: validCognates_def)
  from ok show hi: "cconfidence g \<ge> 0.85"
    by (auto simp: isValidCognate_def split: if_splits)
  show ns: "g \<notin> set (applySoundChangeRules (trim (lc w)) l cognateLanguages)"
  proof
    assume "g \<in> set (applySoundChangeRules (trim (lc w)) l cognateLanguages)"
    from soundChange_shape [OF this] hi show False by simp
  qed
  from mem findCognates_subset [of lc w l cognateLanguages] ns
  show "g \<in> set (findDirectCognates lc (trim (lc w)) l cognateLanguages)"
    by blast
qed

lemma soundChange_rejected:
  assumes "g \<in> set (applySoundChangeRules x l ls)"
  shows "\<not> isValidCognate lc w nl g"
  using soundChange_shape [OF assms] by (simp add: isValidCognate_def)

lemma table_words_plain:
  "list_all (\<lambda>field. list_all (\<lambda>entry. list_all (\<lambda>lw. list_all (\<lambda>cw. \<not> startsWith cw (js ''*''))
      (snd lw)) (snd entry)) (snd field)) cognateGroups"
  by code_simp

lemma directCognate_word:
  assumes "g \<in> set (findDirectCognates lc w l ls)"
  shows "\<exists>field \<in> set cognateGroups. \<exists>entry \<in> set (snd field). \<exists>lw \<in> set (snd entry).
           cword g \<in> set (snd lw)"
proof -
  from assms obtain fieldName concepts where f: "(fieldName, concepts) \<in> set cognateGroups"
    and 1: "g \<in> set (concat (map (conceptCognates lc w l ls fieldName) concepts))"
    by (auto simp: findDirectCognates_def)
  from 1 obtain conceptName languageMap where e: "(conceptName, languageMap) \<in> set concepts"
    and 2: "g \<in> set (conceptCognates lc w l ls fieldName (conceptName, languageMap))"
    by auto
  from 2 have "\<exists>targetLang ws. map_of languageMap targetLang = Some ws \<and> cword g \<in> set ws"
    by (auto simp: conceptCognates_def Let_def directCognate_def split: if_splits option.splits
        intro: sym)
  then obtain targetLang ws where m: "map_of languageMap targetLang = Some ws"
    and 3: "cword g \<in> set ws"
    by blast
  from m have "(targetLang, ws) \<in> set languageMap"
    by (rule map_of_SomeD)
  with f e 3 show ?thesis by force
qed

lemma directCognate_plain:
  assumes "g \<in> set (findDirectCognates lc w l ls)"
  shows "\<not> startsWith (cword g) (js ''*'')"
proof -
  from directCognate_word [OF assms] obtain field entry lw
    where "field \<in> set cognateGroups" "entry \<in> set (snd field)" "lw \<in> set (snd entry)"
      "cword g \<in> set (snd lw)" by blast
  with table_words_plain show ?thesis
    unfolding list_all_iff by blast
qed

lemma source_stamp [simp]: "source (relationship (stamp p s c)) = Some s"
  by (simp add: stamp_def)

lemma priority_stamp [simp]: "priority (relationship (stamp p s c)) = Some p"
  by (simp add: stamp_def)

lemma confidence_stamp [simp]: "confidence (relationship (stamp p s c)) = confidence (relationship c)"
  by (simp add: stamp_def)

lemma confidence_boost [simp]:
  "confidence (relationship (boostConfidence c)) = boosted (confidence (relationship c))"
  by (simp add: boostConfidence_def boosted_def)

lemma normalizeConnection_confidence:
  assumes "normalizeConnection lc sw k = Inr (Some n)"
  shows "confidence (relationship n) = candidateConfidence k"
  using assms
  by (auto simp: normalizeConnection_def candidateConfidence_def Let_def
      split: option.splits if_splits sum.splits)

lemma normalizeAll_origin:
  "normalizeAll lc sw ks = Inr ns \<Longrightarrow> n \<in> set ns
    \<Longrightarrow> \<exists>k \<in> set ks. normalizeConnection lc sw k = Inr (Some n)"
proof (induction ks arbitrary: ns)
  case Nil
  then show ?case by simp
next
  case (Cons k ks)
  from Cons.prems(1) obtain x others where x: "normalizeConnection lc sw k = Inr x"
    and o: "normalizeAll lc sw ks = Inr others"
    and ns: "ns = (case x of None \<Rightarrow> others | Some c \<Rightarrow> c # others)"
    by (auto split: sum.splits)
  show ?case
  proof (cases "n \<in> set others")
    case True
    from Cons.IH [OF o True] show ?thesis by auto
  next
    case False
    with Cons.prems(2) ns have "x = Some n"
      by (cases x) auto
    with x show ?thesis by simp
  qed
qed

lemma etymonline_shape:
  assumes "etymonlineConnections lc sw et = Inr ds" and "d \<in> set ds"
  shows "source (relationship d) = Some (js ''etymonline.com'')
       \<and> priority (relationship d) = Some (js ''high'')
       \<and> (\<exists>k \<in> set (etCandidates et). confidence (relationship d) = boosted (candidateConfidence k))"
proof -
  from assms obtain e ks ns n where et: "et = Some e" and ks: "etConnections e = Some ks"
    and ns: "normalizeAll lc sw ks = Inr ns" and n: "n \<in> set ns"
    and d: "d = stamp (js ''high'') (js ''etymonline.com'') (boostConfidence n)"
    by (auto simp: etymonlineConnections_def split: option.splits sum.splits)
  from normalizeAll_origin [OF ns n] obtain k where k: "k \<in> set ks"
    and nk: "normalizeConnection lc sw k = Inr (Some n)" by blast
  from normalizeConnection_confidence [OF nk] d et ks k show ?thesis
    by (auto simp: etCandidates_def)
qed

lemma wiktionary_shape:
  assumes "wiktionaryConnections lc sw wk = Inr ds" and "d \<in> set ds"
  shows "source (relationship d) = Some (js ''wiktionary'')
       \<and> priority (relationship d) = Some (js ''medium'')
       \<and> (\<exists>k \<in> set (wkCandidates wk). confidence (relationship d) = candidateConfidence k)"
proof -
  from assms obtain e ks ns n where wk: "wk = Some e" and ks: "wkConnections e = Some ks"
    and ns: "normalizeAll lc sw ks = Inr ns" and n: "n \<in> set ns"
    and d: "d = stamp (js ''medium'') (js ''wiktionary'') n"
    by (auto simp: wiktionaryConnections_def split: option.splits sum.splits)
  from normalizeAll_origin [OF ns n] obtain k where k: "k \<in> set ks"
    and nk: "normalizeConnection lc sw k = Inr (Some n)" by blast
  from normalizeConnection_confidence [OF nk] d wk ks k show ?thesis
    by (auto simp: wkCandidates_def)
qed

lemma dictionary_shape:
  assumes "d \<in> set (dictionaryConnections lc sw dc)"
  shows "source (relationship d) = Some (js ''dictionary-api'')
       \<and> priority (relationship d) = Some (js ''low'')
       \<and> confidence (relationship d) = Finite 0.6"
  using assms by (auto simp: dictionaryConnections_def connectionsFromOrigin_def split: option.splits)

lemma cognate_shape:
  assumes "d \<in> set (cognateConnections lc w l)"
  shows "source (relationship d) = None \<and> priority (relationship d) = Some (js ''medium'')
       \<and> (\<exists>g \<in> set (validCognates lc w l). d = cognateConnection g)"
  using assms by (auto simp: cognateConnections_def cognateConnection_def split: if_splits)

lemma collect_blocks:
  assumes "collectConnections lc sw wk dc et = Inr cs" and "d \<in> set cs"
  shows "(\<exists>ds. etymonlineConnections lc sw et = Inr ds \<and> d \<in> set ds)
       \<or> (\<exists>ds. wiktionaryConnections lc sw wk = Inr ds \<and> d \<in> set ds)
       \<or> d \<in> set (dictionaryConnections lc sw dc)
       \<or> d \<in> set (cognateConnections lc (wtext sw) (wlanguage sw))"
  using assms by (auto simp: collectConnections_def split: sum.splits)



lemma accepted_confidence:
  assumes "accepted lc (Some sw) d"
  shows "\<not> numLess (confidence (relationship d)) (Finite 0.4)"
proof -
  from assms have v: "isValidEtymologicalConnection lc (fixPieLanguage lc d) sw"
    by (simp add: accepted_def isInvalid_def)
  show ?thesis
  proof
    assume l: "numLess (confidence (relationship d)) (Finite 0.4)"
    then have "numLess (confidence (relationship d)) (Finite 0.5)"
      by (cases "confidence (relationship d)") simp_all
    with l v show False
      by (auto simp: isValidEtymologicalConnection_def Let_def split: if_splits)
  qed
qed

lemma collect_source:
  assumes "collectConnections lc sw wk dc et = Inr cs" and "d \<in> set cs"
  shows "(source (relationship d) = Some (js ''etymonline.com'')
          \<and> (\<exists>k \<in> set (etCandidates et). confidence (relationship d) = boosted (candidateConfidence k)))
       \<or> (source (relationship d) = Some (js ''wiktionary'')
          \<and> (\<exists>k \<in> set (wkCandidates wk). confidence (relationship d) = candidateConfidence k))
       \<or> (source (relationship d) = Some (js ''dictionary-api'')
          \<and> confidence (relationship d) = Finite 0.6)
       \<or> (source (relationship d) = None \<and> confidence (relationship d) = Finite 0.95
          \<and> (\<exists>g \<in> set (validCognates lc (wtext sw) (wlanguage sw)). d = cognateConnection g))"
proof -
  from collect_blocks [OF assms] consider
      (E) ds where "etymonlineConnections lc sw et = Inr ds" "d \<in> set ds"
    | (W) ds where "wiktionaryConnections lc sw wk = Inr ds" "d \<in> set ds"
    | (D) "d \<in> set (dictionaryConnections lc sw dc)"
    | (C) "d \<in> set (cognateConnections lc (wtext sw) (wlanguage sw))"
    by blast
  then show ?thesis
  proof cases
    case E
    from etymonline_shape [OF E] show ?thesis by blast
  next
    case W
    from wiktionary_shape [OF W] show ?thesis by blast
  next
    case D
    from dictionary_shape [OF D] show ?thesis by blast
  next
    case C
    from cognate_shape [OF C] obtain g where g: "g \<in> set (validCognates lc (wtext sw) (wlanguage sw))"
      and dg: "d = cognateConnection g" and s: "source (relationship d) = None" by blast
    from directCognate_shape [OF validCognates_direct(1) [OF g]] have "cconfidence g = 0.95"
      by simp
    with dg have "confidence (relationship d) = Finite 0.95"
      by (simp add: cognateConnection_def)
    with s g dg show ?thesis by blast
  qed
qed
lemma buildSourceWord_Inr:
  "buildSourceWord w l wk dc = Inr sw \<Longrightarrow> sw = \<lparr>wtext = w, wlanguage = l\<rparr>"
  by (auto simp: buildSourceWord_def split: sum.splits)

lemma lookup_result:
  assumes "lookupConnections lc nw nl results = Inr r"
  shows "\<exists>cs. collectConnections lc \<lparr>wtext = nw, wlanguage = nl\<rparr>
                 (settledValue (wiktionaryResult results)) (settledValue (dictionaryResult results))
                 (settledValue (etymonlineResult results)) = Inr cs
             \<and> r = \<lparr>dataSourceWord = \<lparr>wtext = nw, wlanguage = nl\<rparr>,
                    dataConnections = map toConnection
                      (mergeConnections lc cs \<lparr>wtext = nw, wlanguage = nl\<rparr>)\<rparr>"
  using assms
  by (auto simp: lookupConnections_def Let_def split: sum.splits dest!: buildSourceWord_Inr)

lemma find_cases:
  assumes "fst (findEtymologicalConnections lc cache w language bypass results) = Inr r"
  shows "trim w \<noteq> []"
    and "(\<not> bypass \<and> cache (cacheKey lc (wlanguage (queryWord lc w language)) (trim w)) = Some r)
       \<or> lookupConnections lc (trim w) (wlanguage (queryWord lc w language)) results = Inr r"
  using assms
  by (auto simp: findEtymologicalConnections_def Let_def queryWord_def
      split: if_splits option.splits sum.splits)

lemma find_blank:
  "trim w = [] \<Longrightarrow> findEtymologicalConnections lc cache w language bypass results = (Inl WordRequired, cache)"
  by (simp add: findEtymologicalConnections_def)


lemma find_miss:
  assumes "trim w \<noteq> []"
    and "bypass \<or> cache (cacheKey lc (wlanguage (queryWord lc w language)) (trim w)) = None"
  shows "fst (findEtymologicalConnections lc cache w language bypass results)
           = lookupConnections lc (trim w) (wlanguage (queryWord lc w language)) results"
  using assms
  by (auto simp: findEtymologicalConnections_def Let_def queryWord_def split: sum.splits)

lemma reachable_empty: "reachableCache lc Map.empty"
  by (simp add: reachableCache_def)

lemma find_reachable:
  assumes "reachableCache lc cache"
  shows "reachableCache lc (snd (findEtymologicalConnections lc cache w language bypass results))"
proof (cases "trim w = []")
  case True
  then show ?thesis
    using assms by (simp add: find_blank)
next
  case False
  let ?k = "cacheKey lc (wlanguage (queryWord lc w language)) (trim w)"
  show ?thesis
  proof (cases "lookupConnections lc (trim w) (wlanguage (queryWord lc w language)) results")
    case (Inl e)
    then have "snd (findEtymologicalConnections lc cache w language bypass results) = cache"
      using False
      by (auto simp: findEtymologicalConnections_def Let_def queryWord_def split: option.splits)
    with assms show ?thesis by simp
  next
    case (Inr r)
    with False have st: "storedBy lc ?k r"
      unfolding storedBy_def by blast
    have "snd (findEtymologicalConnections lc cache w language bypass results) = cache
        \<or> snd (findEtymologicalConnections lc cache w language bypass results) = cache(?k \<mapsto> r)"
      using False Inr
      by (auto simp: findEtymologicalConnections_def Let_def queryWord_def split: option.splits)
    then show ?thesis
    proof
      assume "snd (findEtymologicalConnections lc cache w language bypass results) = cache"
      with assms show ?thesis by simp
    next
      assume "snd (findEtymologicalConnections lc cache w language bypass results) = cache(?k \<mapsto> r)"
      with assms st show ?thesis
        by (auto simp: reachableCache_def)
    qed
  qed
qed

lemma returned_computed:
  assumes "reachableCache lc cache"
    and "fst (findEtymologicalConnections lc cache w language bypass results) = Inr r"
  shows "\<exists>nw nl fetches. lookupConnections lc nw nl fetches = Inr r"
proof -
  from find_cases(2) [OF assms(2)] show ?thesis
  proof
    assume "\<not> bypass \<and> cache (cacheKey lc (wlanguage (queryWord lc w language)) (trim w)) = Some r"
    with assms(1) have "storedBy lc (cacheKey lc (wlanguage (queryWord lc w language)) (trim w)) r"
      by (simp add: reachableCache_def)
    then show ?thesis
      unfolding storedBy_def by blast
  next
    assume "lookupConnections lc (trim w) (wlanguage (queryWord lc w language)) results = Inr r"
    then show ?thesis by blast
  qed
qed

lemma computed_origin:
  assumes e: "lookupConnections lc nw nl results = Inr r"
    and c: "c \<in> set (dataConnections r)"
  shows "\<exists>cs d. collectConnections lc (dataSourceWord r)
                 (settledValue (wiktionaryResult results)) (settledValue (dictionaryResult results))
                 (settledValue (etymonlineResult results)) = Inr cs
         \<and> dataSourceWord r = \<lparr>wtext = nw, wlanguage = nl\<rparr>
         \<and> d \<in> set cs
         \<and> accepted lc (Some (dataSourceWord r)) d
         \<and> \<not> isTrivialDerivative lc nw (wtext (word d)) nl (wlanguage (word d))
         \<and> cnWord c = word (fixPieLanguage lc d)
         \<and> cnType c = rtype (relationship d)
         \<and> cnConfidence c = confidence (relationship d)
         \<and> cnSource c = (case source (relationship d) of None \<Rightarrow> js ''unknown''
                          | Some s \<Rightarrow> orElse s (js ''unknown''))"
proof -
  let ?sw = "\<lparr>wtext = nw, wlanguage = nl\<rparr>"
  from lookup_result [OF e] obtain cs
    where cs: "collectConnections lc ?sw
                 (settledValue (wiktionaryResult results)) (settledValue (dictionaryResult results))
                 (settledValue (etymonlineResult results)) = Inr cs"
      and r: "r = \<lparr>dataSourceWord = ?sw,
                   dataConnections = map toConnection (mergeConnections lc cs ?sw)\<rparr>"
    by blast
  from c r obtain m where m: "m \<in> set (mergeConnections lc cs ?sw)" and cm: "c = toConnection m"
    by auto
  from merge_origin [OF m] obtain d where d: "d \<in> set cs"
    and nt: "\<not> isTrivialDerivative lc (wtext ?sw) (wtext (word d)) (wlanguage ?sw) (wlanguage (word d))"
    and a: "accepted lc (Some ?sw) d" and fx: "m = fixPieLanguage lc d" by blast
  have sw: "dataSourceWord r = ?sw"
    using r by simp
  from cm fx have "cnWord c = word (fixPieLanguage lc d)
         \<and> cnType c = rtype (relationship d)
         \<and> cnConfidence c = confidence (relationship d)
         \<and> cnSource c = (case source (relationship d) of None \<Rightarrow> js ''unknown''
                          | Some s \<Rightarrow> orElse s (js ''unknown''))"
    by (simp add: toConnection_def)
  with cs d a nt sw show ?thesis
    by (intro exI [of _ cs] exI [of _ d]) simp
qed


lemma candidateLanguage_other [simp]: "candidateLanguage lc sw LanguageOther = Inl TypeError"
  by (simp add: candidateLanguage_def)










lemma computed_no_self_loop:
  assumes "lookupConnections lc nw nl results = Inr r" and "c \<in> set (dataConnections r)"
  shows "lc (wtext (cnWord c)) \<noteq> lc nw"
proof -
  from computed_origin [OF assms] obtain d
    where nt: "\<not> isTrivialDerivative lc nw (wtext (word d)) nl (wlanguage (word d))"
      and cw: "cnWord c = word (fixPieLanguage lc d)"
    by blast
  from nontrivial_text [OF nt] cw show ?thesis by simp
qed

lemma fresh_no_self_loop:
  assumes "bypass \<or> cache (cacheKey lc (wlanguage (queryWord lc w language)) (trim w)) = None"
    and "fst (findEtymologicalConnections lc cache w language bypass results) = Inr r"
    and "c \<in> set (dataConnections r)"
  shows "lc (wtext (cnWord c)) \<noteq> lc (trim w)"
proof -
  from find_cases(1) [OF assms(2)] have "trim w \<noteq> []" .
  then have "fst (findEtymologicalConnections lc cache w language bypass results)
               = lookupConnections lc (trim w) (wlanguage (queryWord lc w language)) results"
    using assms(1) by (rule find_miss)
  with assms(2)
  have "lookupConnections lc (trim w) (wlanguage (queryWord lc w language)) results = Inr r"
    by simp
  from computed_no_self_loop [OF this assms(3)] show ?thesis .
qed


lemma boosted_cases:
  "boosted (Finite a) = Finite (if a \<noteq> 0 then min (a + 0.1) 0.95 else a)"
  "boosted PlusInfinity = Finite 0.95"
  "boosted MinusInfinity = MinusInfinity"
  "boosted NaN = NaN"
  by (simp_all add: boosted_def)

lemma boost_cap: "(if a \<noteq> 0 then min (a + 0.1) 0.95 else a) \<le> (0.95::real)"
  by (simp add: min_def)

lemma boosted_bound:
  "boosted x = NaN \<or> boosted x = MinusInfinity \<or> (\<exists>y. boosted x = Finite y \<and> y \<le> 0.95)"
proof (cases x)
  case (Finite a)
  have "boosted x = Finite (if a \<noteq> 0 then min (a + 0.1) 0.95 else a)"
    unfolding Finite by (rule boosted_cases)
  with boost_cap [of a] show ?thesis by blast
next
  case PlusInfinity
  have "boosted x = Finite 0.95 \<and> (0.95::real) \<le> 0.95"
    unfolding PlusInfinity by (simp add: boosted_cases)
  then show ?thesis by blast
next
  case MinusInfinity
  then show ?thesis by (simp add: boosted_cases)
next
  case NaN
  then show ?thesis by (simp add: boosted_cases)
qed

lemma boosted_finite:
  assumes "x \<noteq> NaN" and "\<not> numLess (boosted x) (Finite 0.4)"
  shows "\<exists>y. boosted x = Finite y \<and> 0.4 \<le> y \<and> y \<le> 0.95"
proof -
  from boosted_bound [of x] consider "boosted x = NaN" | "boosted x = MinusInfinity"
    | y where "boosted x = Finite y" "y \<le> 0.95"
    by blast
  then show ?thesis
  proof cases
    case 1
    with assms(1) show ?thesis
      by (cases x) (simp_all add: boosted_cases)
  next
    case 2
    with assms(2) show ?thesis by simp
  next
    case 3
    from assms(2) have "0.4 \<le> y"
      unfolding 3(1) by simp
    with 3 show ?thesis by blast
  qed
qed

lemma passed_finite:
  assumes "x \<noteq> NaN" and "\<not> numLess (Finite 1) x" and "\<not> numLess x (Finite 0.4)"
  shows "\<exists>y. x = Finite y \<and> 0.4 \<le> y \<and> y \<le> 1"
proof (cases x)
  case (Finite a)
  from assms(2,3) have "0.4 \<le> a" "a \<le> 1"
    unfolding Finite by simp_all
  with Finite show ?thesis by blast
next
  case PlusInfinity
  with assms(2) show ?thesis by simp
next
  case MinusInfinity
  with assms(3) show ?thesis by simp
next
  case NaN
  with assms(1) show ?thesis by simp
qed

lemma returned_source:
  assumes e: "lookupConnections lc nw nl results = Inr r"
    and c: "c \<in> set (dataConnections r)"
  shows "\<not> numLess (cnConfidence c) (Finite 0.4)
       \<and> ((cnSource c = js ''etymonline.com''
            \<and> (\<exists>k \<in> set (etymonlineCandidates results). cnConfidence c = boosted (candidateConfidence k)))
          \<or> (cnSource c = js ''wiktionary''
            \<and> (\<exists>k \<in> set (wiktionaryCandidates results). cnConfidence c = candidateConfidence k))
          \<or> (cnSource c = js ''dictionary-api'' \<and> cnConfidence c = Finite 0.6)
          \<or> (cnSource c = js ''unknown'' \<and> cnConfidence c = Finite 0.95))"
proof -
  from computed_origin [OF e c] obtain cs d
    where cs: "collectConnections lc (dataSourceWord r)
                 (settledValue (wiktionaryResult results)) (settledValue (dictionaryResult results))
                 (settledValue (etymonlineResult results)) = Inr cs"
      and d: "d \<in> set cs" and a: "accepted lc (Some (dataSourceWord r)) d"
      and cc: "cnConfidence c = confidence (relationship d)"
      and src: "cnSource c = (case source (relationship d) of None \<Rightarrow> js ''unknown''
                             | Some s \<Rightarrow> orElse s (js ''unknown''))"
    by blast
  have lo: "\<not> numLess (cnConfidence c) (Finite 0.4)"
    using accepted_confidence [OF a] cc by simp
  from collect_source [OF cs d] src cc
  have "(cnSource c = js ''etymonline.com''
            \<and> (\<exists>k \<in> set (etymonlineCandidates results). cnConfidence c = boosted (candidateConfidence k)))
          \<or> (cnSource c = js ''wiktionary''
            \<and> (\<exists>k \<in> set (wiktionaryCandidates results). cnConfidence c = candidateConfidence k))
          \<or> (cnSource c = js ''dictionary-api'' \<and> cnConfidence c = Finite 0.6)
          \<or> (cnSource c = js ''unknown'' \<and> cnConfidence c = Finite 0.95)"
    by (auto simp: orElse_def etymonlineCandidates_def wiktionaryCandidates_def)
  with lo show ?thesis ..
qed

section \<open>The claims\<close>

text \<open>
  Claim C1. The claim asks that no returned connection has the text of the query word, for
  every query. A result that is computed has none (lemma \<open>fresh_no_self_loop\<close>, for any case
  folding). But the result cache is asked first, and its key is the language, a colon and the
  word in lower case: \<open>en:a:b\<close> is the key of the word \<open>a:b\<close> in the language \<open>en\<close> and also of
  the word \<open>b\<close> in the language \<open>en:a\<close>. Once the first query has been answered, with the
  wiktionary candidate \<open>b\<close>, the second query gets the result of the first from the cache:
  the connection \<open>b\<close> is returned for the query word \<open>b\<close>. Asked on an empty cache, the second
  query returns no connection.
\<close>

theorem self_loop_from_cache:
  "cacheKey toLowerCase (js ''en'') (js ''a:b'') = cacheKey toLowerCase (js ''en:a'') (js ''b'')
   \<and> fst (findEtymologicalConnections toLowerCase
         (snd (findEtymologicalConnections toLowerCase Map.empty (js ''a:b'') (Some (js ''en'')) False
                 (fetched (Some (candidatesOnly [rawCandidate ''b'' ''en'' ''cognate'' (Finite 0.8)]))
                    None None)))
         (js ''b'') (Some (js ''en:a'')) False (fetched None None None))
     = Inr \<lparr>dataSourceWord = \<lparr>wtext = js ''a:b'', wlanguage = js ''en''\<rparr>,
            dataConnections =
              [\<lparr>cnWord = \<lparr>wtext = js ''b'', wlanguage = js ''en''\<rparr>, cnType = js ''cognate'',
                cnConfidence = Finite 0.8, cnSource = js ''wiktionary''\<rparr>]\<rparr>
   \<and> fst (findEtymologicalConnections toLowerCase Map.empty
         (js ''b'') (Some (js ''en:a'')) False (fetched None None None))
     = Inr \<lparr>dataSourceWord = \<lparr>wtext = js ''b'', wlanguage = js ''en:a''\<rparr>, dataConnections = []\<rparr>"
  by code_simp

text \<open>
  Claim C2. No two connections returned by \<open>findEtymologicalConnections\<close> have the same
  deduplication key, the pair of the word text in lower case and the normalized language
  (in lower case, and \<open>ine-pro\<close> for a text that starts with \<open>*\<close>). This holds for any case
  folding \<open>lc\<close> of the runtime and in every reachable state of the result cache, whether the
  result is computed or comes from the cache; and the cache is in a reachable state again
  after the call.
\<close>

theorem dedup_invariant:
  assumes "reachableCache lc cache"
    and "fst (findEtymologicalConnections lc cache w language bypass results) = Inr r"
  shows "distinct (map (\<lambda>c. wordKey lc (cnWord c)) (dataConnections r))
       \<and> reachableCache lc (snd (findEtymologicalConnections lc cache w language bypass results))"
proof
  from returned_computed [OF assms] obtain nw nl fetches
    where e: "lookupConnections lc nw nl fetches = Inr r" by blast
  from lookup_result [OF e] obtain cs
    where r: "r = \<lparr>dataSourceWord = \<lparr>wtext = nw, wlanguage = nl\<rparr>,
                   dataConnections = map toConnection
                     (mergeConnections lc cs \<lparr>wtext = nw, wlanguage = nl\<rparr>)\<rparr>"
    by blast
  let ?ds = "mergeConnections lc cs \<lparr>wtext = nw, wlanguage = nl\<rparr>"
  have eq: "map (\<lambda>c. wordKey lc (cnWord c)) (map toConnection ?ds) = map (\<lambda>c. wordKey lc (word c)) ?ds"
    by (simp add: toConnection_def)
  have "distinct (map (\<lambda>c. wordKey lc (word c)) ?ds)"
    by (rule distinct_wordKeys) (rule merge_distinct)
  then have "distinct (map (\<lambda>c. wordKey lc (cnWord c)) (map toConnection ?ds))"
    unfolding eq .
  moreover have "dataConnections r = map toConnection ?ds"
    unfolding r by simp
  ultimately show "distinct (map (\<lambda>c. wordKey lc (cnWord c)) (dataConnections r))"
    by (simp only:)
  show "reachableCache lc (snd (findEtymologicalConnections lc cache w language bypass results))"
    by (rule find_reachable [OF assms(1)])
qed

text \<open>
  Two wiktionary candidates \<open>Aqua\<close> and \<open>aqua\<close> of the language \<open>la\<close> for the query \<open>water\<close>, on
  the empty cache: one of them is returned, and the three keys of the result are distinct.
\<close>

theorem dedup_invariant_witness:
  "reachableCache toLowerCase Map.empty
   \<and> fst (findEtymologicalConnections toLowerCase Map.empty (js ''water'') None False
        (fetched (Some (candidatesOnly [rawCandidate ''Aqua'' ''la'' ''cognate'' (Finite 0.8),
                                        rawCandidate ''aqua'' ''LA'' ''cognate'' (Finite 0.9)])) None None))
     = Inr \<lparr>dataSourceWord = \<lparr>wtext = js ''water'', wlanguage = js ''en''\<rparr>,
            dataConnections =
              [\<lparr>cnWord = \<lparr>wtext = js ''eau'', wlanguage = js ''fr''\<rparr>, cnType = js ''cognate'',
                cnConfidence = Finite 0.95, cnSource = js ''unknown''\<rparr>,
               \<lparr>cnWord = \<lparr>wtext = js ''wasser'', wlanguage = js ''de''\<rparr>, cnType = js ''cognate'',
                cnConfidence = Finite 0.95, cnSource = js ''unknown''\<rparr>,
               \<lparr>cnWord = \<lparr>wtext = js ''aqua'', wlanguage = js ''la''\<rparr>, cnType = js ''cognate'',
                cnConfidence = Finite 0.9, cnSource = js ''wiktionary''\<rparr>]\<rparr>
   \<and> distinct [wordKey toLowerCase \<lparr>wtext = js ''eau'', wlanguage = js ''fr''\<rparr>,
                wordKey toLowerCase \<lparr>wtext = js ''wasser'', wlanguage = js ''de''\<rparr>,
                wordKey toLowerCase \<lparr>wtext = js ''aqua'', wlanguage = js ''la''\<rparr>]"
proof -
  let ?r = "\<lparr>dataSourceWord = \<lparr>wtext = js ''water'', wlanguage = js ''en''\<rparr>,
            dataConnections =
              [\<lparr>cnWord = \<lparr>wtext = js ''eau'', wlanguage = js ''fr''\<rparr>, cnType = js ''cognate'',
                cnConfidence = Finite 0.95, cnSource = js ''unknown''\<rparr>,
               \<lparr>cnWord = \<lparr>wtext = js ''wasser'', wlanguage = js ''de''\<rparr>, cnType = js ''cognate'',
                cnConfidence = Finite 0.95, cnSource = js ''unknown''\<rparr>,
               \<lparr>cnWord = \<lparr>wtext = js ''aqua'', wlanguage = js ''la''\<rparr>, cnType = js ''cognate'',
                cnConfidence = Finite 0.9, cnSource = js ''wiktionary''\<rparr>]\<rparr>"
  have c: "reachableCache toLowerCase Map.empty"
    by (simp add: reachableCache_def)
  have e: "fst (findEtymologicalConnections toLowerCase Map.empty (js ''water'') None False
        (fetched (Some (candidatesOnly [rawCandidate ''Aqua'' ''la'' ''cognate'' (Finite 0.8),
                                        rawCandidate ''aqua'' ''LA'' ''cognate'' (Finite 0.9)])) None None))
     = Inr ?r"
    by code_simp
  from dedup_invariant [OF c e]
  have "distinct (map (\<lambda>c. wordKey toLowerCase (cnWord c)) (dataConnections ?r))" ..
  then have "distinct [wordKey toLowerCase \<lparr>wtext = js ''eau'', wlanguage = js ''fr''\<rparr>,
                wordKey toLowerCase \<lparr>wtext = js ''wasser'', wlanguage = js ''de''\<rparr>,
                wordKey toLowerCase \<lparr>wtext = js ''aqua'', wlanguage = js ''la''\<rparr>]"
    by simp
  with c e show ?thesis by blast
qed




text \<open>
  Claim C5, as amended. Nothing in the pipeline clamps a confidence to the interval from 0
  to 1. Every returned connection has a confidence that is not below 0.4, the floor of the
  merge validator, which a confidence NaN passes; a connection whose source is not
  \<open>wiktionary\<close> has a confidence of at most 0.95, or NaN. In a result that is computed (not
  taken from the cache) a wiktionary connection has the confidence its candidate arrived
  with, 0.5 when that is not a number; an etymonline connection has \<open>min(c + 0.1, 0.95)\<close> for
  the confidence \<open>c\<close> of its candidate, and \<open>c\<close> itself when \<open>c\<close> is 0 or NaN; a dictionary
  connection has 0.6 and a connection of the cognate generator 0.95. So every confidence of
  a computed result lies between 0.4 and 1 provided no wiktionary candidate arrives with a
  confidence above 1 or NaN and no etymonline candidate with NaN.
\<close>

theorem confidence_bounds:
  assumes "reachableCache lc cache"
    and "fst (findEtymologicalConnections lc cache w language bypass results) = Inr r"
  shows "(\<forall>c \<in> set (dataConnections r).
            \<not> numLess (cnConfidence c) (Finite 0.4)
          \<and> (cnSource c \<noteq> js ''wiktionary''
               \<longrightarrow> cnConfidence c = NaN \<or> (\<exists>x. cnConfidence c = Finite x \<and> x \<le> 0.95)))
       \<and> (bypass \<or> cache (cacheKey lc (wlanguage (queryWord lc w language)) (trim w)) = None
           \<longrightarrow> (\<forall>c \<in> set (dataConnections r).
                    (cnSource c = js ''etymonline.com''
                       \<and> (\<exists>k \<in> set (etymonlineCandidates results).
                             cnConfidence c = boosted (candidateConfidence k)))
                  \<or> (cnSource c = js ''wiktionary''
                       \<and> (\<exists>k \<in> set (wiktionaryCandidates results).
                             cnConfidence c = candidateConfidence k))
                  \<or> (cnSource c = js ''dictionary-api'' \<and> cnConfidence c = Finite 0.6)
                  \<or> (cnSource c = js ''unknown'' \<and> cnConfidence c = Finite 0.95))
              \<and> ((\<forall>k \<in> set (wiktionaryCandidates results).
                      candidateConfidence k \<noteq> NaN \<and> \<not> numLess (Finite 1) (candidateConfidence k))
                  \<and> (\<forall>k \<in> set (etymonlineCandidates results). candidateConfidence k \<noteq> NaN)
                  \<longrightarrow> (\<forall>c \<in> set (dataConnections r).
                         \<exists>x. cnConfidence c = Finite x \<and> 0.4 \<le> x \<and> x \<le> 1)))"
proof (intro conjI ballI impI)
  fix c assume c: "c \<in> set (dataConnections r)"
  from returned_computed [OF assms] obtain nw nl fetches
    where e: "lookupConnections lc nw nl fetches = Inr r" by blast
  note s = returned_source [OF e c]
  from s show lo: "\<not> numLess (cnConfidence c) (Finite 0.4)" ..
  assume nw: "cnSource c \<noteq> js ''wiktionary''"
  from s nw consider
      (E) k where "cnConfidence c = boosted (candidateConfidence k)"
    | (D) "cnConfidence c = Finite 0.6"
    | (C) "cnConfidence c = Finite 0.95"
    by blast
  then show "cnConfidence c = NaN \<or> (\<exists>x. cnConfidence c = Finite x \<and> x \<le> 0.95)"
  proof cases
    case E
    from boosted_bound [of "candidateConfidence k"] lo show ?thesis
      unfolding E by auto
  next
    case D
    have "(0.6::real) \<le> 0.95" by simp
    with D show ?thesis by blast
  next
    case C
    have "(0.95::real) \<le> 0.95" by simp
    with C show ?thesis by blast
  qed
next
  fix c
  assume miss: "bypass \<or> cache (cacheKey lc (wlanguage (queryWord lc w language)) (trim w)) = None"
    and c: "c \<in> set (dataConnections r)"
  from find_cases(1) [OF assms(2)] have "trim w \<noteq> []" .
  then have "fst (findEtymologicalConnections lc cache w language bypass results)
               = lookupConnections lc (trim w) (wlanguage (queryWord lc w language)) results"
    using miss by (rule find_miss)
  with assms(2)
  have e: "lookupConnections lc (trim w) (wlanguage (queryWord lc w language)) results = Inr r"
    by simp
  from returned_source [OF e c]
  show "(cnSource c = js ''etymonline.com''
                       \<and> (\<exists>k \<in> set (etymonlineCandidates results).
                             cnConfidence c = boosted (candidateConfidence k)))
                  \<or> (cnSource c = js ''wiktionary''
                       \<and> (\<exists>k \<in> set (wiktionaryCandidates results).
                             cnConfidence c = candidateConfidence k))
                  \<or> (cnSource c = js ''dictionary-api'' \<and> cnConfidence c = Finite 0.6)
                  \<or> (cnSource c = js ''unknown'' \<and> cnConfidence c = Finite 0.95)"
    ..
next
  fix c
  assume miss: "bypass \<or> cache (cacheKey lc (wlanguage (queryWord lc w language)) (trim w)) = None"
    and ok: "(\<forall>k \<in> set (wiktionaryCandidates results).
                      candidateConfidence k \<noteq> NaN \<and> \<not> numLess (Finite 1) (candidateConfidence k))
                  \<and> (\<forall>k \<in> set (etymonlineCandidates results). candidateConfidence k \<noteq> NaN)"
    and c: "c \<in> set (dataConnections r)"
  from find_cases(1) [OF assms(2)] have "trim w \<noteq> []" .
  then have "fst (findEtymologicalConnections lc cache w language bypass results)
               = lookupConnections lc (trim w) (wlanguage (queryWord lc w language)) results"
    using miss by (rule find_miss)
  with assms(2)
  have e: "lookupConnections lc (trim w) (wlanguage (queryWord lc w language)) results = Inr r"
    by simp
  note s = returned_source [OF e c]
  from s have lo: "\<not> numLess (cnConfidence c) (Finite 0.4)" ..
  from s consider
      (E) k where "k \<in> set (etymonlineCandidates results)"
        "cnConfidence c = boosted (candidateConfidence k)"
    | (W) k where "k \<in> set (wiktionaryCandidates results)" "cnConfidence c = candidateConfidence k"
    | (D) "cnConfidence c = Finite 0.6"
    | (C) "cnConfidence c = Finite 0.95"
    by blast
  then show "\<exists>x. cnConfidence c = Finite x \<and> 0.4 \<le> x \<and> x \<le> 1"
  proof cases
    case E
    from E(1) ok have nn: "candidateConfidence k \<noteq> NaN" by blast
    from lo E(2) have "\<not> numLess (boosted (candidateConfidence k)) (Finite 0.4)" by simp
    from boosted_finite [OF nn this] obtain y
      where "boosted (candidateConfidence k) = Finite y" "0.4 \<le> y" "y \<le> 0.95" by blast
    then have "cnConfidence c = Finite y \<and> 0.4 \<le> y \<and> y \<le> 1"
      using E(2) by simp
    then show ?thesis ..
  next
    case W
    from W(1) ok have "candidateConfidence k \<noteq> NaN" "\<not> numLess (Finite 1) (candidateConfidence k)"
      by blast+
    moreover from lo W(2) have "\<not> numLess (candidateConfidence k) (Finite 0.4)" by simp
    ultimately obtain y where "candidateConfidence k = Finite y" "0.4 \<le> y" "y \<le> 1"
      using passed_finite by blast
    then have "cnConfidence c = Finite y \<and> 0.4 \<le> y \<and> y \<le> 1"
      using W(2) by simp
    then show ?thesis ..
  next
    case D
    have "(0.4::real) \<le> 0.6 \<and> (0.6::real) \<le> 1" by simp
    with D show ?thesis by blast
  next
    case C
    have "(0.4::real) \<le> 0.95 \<and> (0.95::real) \<le> 1" by simp
    with C show ?thesis by blast
  qed
qed

text \<open>
  The query \<open>water\<close> on the empty cache, with the etymonline candidate \<open>*wed-\<close> of confidence
  0.9, the wiktionary candidate \<open>aqua\<close> of confidence 0.8 and one segment of the dictionary
  origin: the boost is capped at 0.95, and all five confidences lie between 0.4 and 1.
\<close>

theorem confidence_bounds_witness:
  "reachableCache toLowerCase Map.empty
   \<and> fst (findEtymologicalConnections toLowerCase Map.empty (js ''water'') None False
        (fetched (Some (candidatesOnly [rawCandidate ''aqua'' ''la'' ''cognate'' (Finite 0.8)]))
           (Some \<lparr>originSegments = [\<lparr>segType = js ''ancestor'', languageName = js ''Old English'',
                                     rootWord = js ''waeter''\<rparr>], meanings = []\<rparr>)
           (Some \<lparr>etConnections = Some [rawCandidate ''*wed-'' ''ine-pro'' ''etymology'' (Finite 0.9)]\<rparr>)))
     = Inr \<lparr>dataSourceWord = \<lparr>wtext = js ''water'', wlanguage = js ''en''\<rparr>,
            dataConnections =
              [\<lparr>cnWord = \<lparr>wtext = js ''*wed-'', wlanguage = js ''ine-pro''\<rparr>, cnType = js ''etymology'',
                cnConfidence = Finite 0.95, cnSource = js ''etymonline.com''\<rparr>,
               \<lparr>cnWord = \<lparr>wtext = js ''eau'', wlanguage = js ''fr''\<rparr>, cnType = js ''cognate'',
                cnConfidence = Finite 0.95, cnSource = js ''unknown''\<rparr>,
               \<lparr>cnWord = \<lparr>wtext = js ''wasser'', wlanguage = js ''de''\<rparr>, cnType = js ''cognate'',
                cnConfidence = Finite 0.95, cnSource = js ''unknown''\<rparr>,
               \<lparr>cnWord = \<lparr>wtext = js ''aqua'', wlanguage = js ''la''\<rparr>, cnType = js ''cognate'',
                cnConfidence = Finite 0.8, cnSource = js ''wiktionary''\<rparr>,
               \<lparr>cnWord = \<lparr>wtext = js ''waeter'', wlanguage = js ''en''\<rparr>, cnType = js ''ancestor'',
                cnConfidence = Finite 0.6, cnSource = js ''dictionary-api''\<rparr>]\<rparr>
   \<and> list_all (\<lambda>x. \<exists>y. x = Finite y \<and> 0.4 \<le> y \<and> y \<le> 1)
        [Finite 0.95, Finite 0.95, Finite 0.95, Finite 0.8, Finite 0.6]"
proof -
  let ?results = "fetched (Some (candidatesOnly [rawCandidate ''aqua'' ''la'' ''cognate'' (Finite 0.8)]))
           (Some \<lparr>originSegments = [\<lparr>segType = js ''ancestor'', languageName = js ''Old English'',
                                     rootWord = js ''waeter''\<rparr>], meanings = []\<rparr>)
           (Some \<lparr>etConnections = Some [rawCandidate ''*wed-'' ''ine-pro'' ''etymology'' (Finite 0.9)]\<rparr>)"
  let ?r = "\<lparr>dataSourceWord = \<lparr>wtext = js ''water'', wlanguage = js ''en''\<rparr>,
            dataConnections =
              [\<lparr>cnWord = \<lparr>wtext = js ''*wed-'', wlanguage = js ''ine-pro''\<rparr>, cnType = js ''etymology'',
                cnConfidence = Finite 0.95, cnSource = js ''etymonline.com''\<rparr>,
               \<lparr>cnWord = \<lparr>wtext = js ''eau'', wlanguage = js ''fr''\<rparr>, cnType = js ''cognate'',
                cnConfidence = Finite 0.95, cnSource = js ''unknown''\<rparr>,
               \<lparr>cnWord = \<lparr>wtext = js ''wasser'', wlanguage = js ''de''\<rparr>, cnType = js ''cognate'',
                cnConfidence = Finite 0.95, cnSource = js ''unknown''\<rparr>,
               \<lparr>cnWord = \<lparr>wtext = js ''aqua'', wlanguage = js ''la''\<rparr>, cnType = js ''cognate'',
                cnConfidence = Finite 0.8, cnSource = js ''wiktionary''\<rparr>,
               \<lparr>cnWord = \<lparr>wtext = js ''waeter'', wlanguage = js ''en''\<rparr>, cnType = js ''ancestor'',
                cnConfidence = Finite 0.6, cnSource = js ''dictionary-api''\<rparr>]\<rparr>"
  have c: "reachableCache toLowerCase Map.empty"
    by (simp add: reachableCache_def)
  have e: "fst (findEtymologicalConnections toLowerCase Map.empty (js ''water'') None False ?results)
             = Inr ?r"
    by code_simp
  have wk: "wiktionaryCandidates ?results = [rawCandidate ''aqua'' ''la'' ''cognate'' (Finite 0.8)]"
    by (simp add: wiktionaryCandidates_def wkCandidates_def fetched_def settledValue_def candidatesOnly_def)
  have et: "etymonlineCandidates ?results = [rawCandidate ''*wed-'' ''ine-pro'' ''etymology'' (Finite 0.9)]"
    by (simp add: etymonlineCandidates_def etCandidates_def fetched_def settledValue_def)
  have ok: "(\<forall>k \<in> set (wiktionaryCandidates ?results).
                      candidateConfidence k \<noteq> NaN \<and> \<not> numLess (Finite 1) (candidateConfidence k))
                  \<and> (\<forall>k \<in> set (etymonlineCandidates ?results). candidateConfidence k \<noteq> NaN)"
    unfolding wk et by (simp add: candidateConfidence_def rawCandidate_def)
  from confidence_bounds [OF c e] ok
  have "\<forall>c \<in> set (dataConnections ?r). \<exists>x. cnConfidence c = Finite x \<and> 0.4 \<le> x \<and> x \<le> 1"
    by blast
  then have "list_all (\<lambda>x. \<exists>y. x = Finite y \<and> 0.4 \<le> y \<and> y \<le> 1)
        [Finite 0.95, Finite 0.95, Finite 0.95, Finite 0.8, Finite 0.6]"
    by simp
  with c e show ?thesis by blast
qed

text \<open>
  The claim as stated fails: a wiktionary candidate that arrives with the confidence 1.5 is
  returned with 1.5, and an etymonline candidate that arrives with NaN is returned with NaN.
\<close>

theorem confidence_not_clamped:
  "fst (findEtymologicalConnections toLowerCase Map.empty (js ''domicile'') None False
        (fetched (Some (candidatesOnly [rawCandidate ''domus'' ''la'' ''cognate'' (Finite 1.5)])) None
           (Some \<lparr>etConnections = Some [rawCandidate ''*dem-'' ''ine-pro'' ''etymology'' NaN]\<rparr>)))
     = Inr \<lparr>dataSourceWord = \<lparr>wtext = js ''domicile'', wlanguage = js ''en''\<rparr>,
            dataConnections =
              [\<lparr>cnWord = \<lparr>wtext = js ''*dem-'', wlanguage = js ''ine-pro''\<rparr>, cnType = js ''etymology'',
                cnConfidence = NaN, cnSource = js ''etymonline.com''\<rparr>,
               \<lparr>cnWord = \<lparr>wtext = js ''domus'', wlanguage = js ''la''\<rparr>, cnType = js ''cognate'',
                cnConfidence = Finite 1.5, cnSource = js ''wiktionary''\<rparr>]\<rparr>
   \<and> numLess (Finite 1) (Finite 1.5)
   \<and> \<not> numLess (Finite 0) NaN \<and> \<not> numLess NaN (Finite 1) \<and> NaN \<noteq> Finite 1 \<and> NaN \<noteq> Finite 0"
  by code_simp

text \<open>
  Claim C6. A candidate whose word text starts with \<open>*\<close> is never rejected by the two
  semantic-suspicion filters, \<open>areSemanticallyUnrelated\<close> of the merge engine (for any case
  folding) and \<open>areSemanticallySuspicious\<close> of the HTML extractor, whichever argument it is;
  the validator of the merge step accepts it exactly when its confidence is not below 0.4;
  and the merge step rewrites its language to \<open>ine-pro\<close>: every connection with this text that
  \<open>deduplicateConnections\<close> and \<open>mergeConnections\<close> return has the language \<open>ine-pro\<close>.
\<close>

theorem proto_exemption:
  assumes "startsWith t (js ''*'')"
  shows "\<not> areSemanticallyUnrelated lc s t \<and> \<not> areSemanticallyUnrelated lc t s
       \<and> \<not> areSemanticallySuspicious t s \<and> \<not> areSemanticallySuspicious s t
       \<and> (wtext (word c) = t
            \<longrightarrow> wlanguage (word (fixPieLanguage toLowerCase c)) = js ''ine-pro''
              \<and> isValidEtymologicalConnection lc (fixPieLanguage toLowerCase c) sw
                  = (\<not> numLess (confidence (relationship c)) (Finite 0.4)))
       \<and> (\<forall>r \<in> set (deduplicateConnections toLowerCase cs osw). wtext (word r) = t
            \<longrightarrow> wlanguage (word r) = js ''ine-pro'')
       \<and> (\<forall>r \<in> set (mergeConnections toLowerCase cs sw). wtext (word r) = t
            \<longrightarrow> wlanguage (word r) = js ''ine-pro'')"
proof -
  from assms have st: "startsWith t [42]" by simp
  have fixed: "wlanguage (word (fixPieLanguage toLowerCase d)) = js ''ine-pro''"
    if "wtext (word d) = t" for d
    using that st by (simp add: fixPieLanguage_def comparisonText_def startsWith_star_lower)
  have valid: "isValidEtymologicalConnection lc (fixPieLanguage toLowerCase d) sw
                 = (\<not> numLess (confidence (relationship d)) (Finite 0.4))"
    if "wtext (word d) = t" for d
    using that st by (auto simp: isValidEtymologicalConnection_def Let_def)
  have dd: "wlanguage (word r) = js ''ine-pro''"
    if "r \<in> set (deduplicateConnections toLowerCase cs osw)" and "wtext (word r) = t" for r
  proof -
    from dedup_origin [OF that(1)] obtain d where d: "r = fixPieLanguage toLowerCase d" by blast
    with that(2) have "wtext (word d) = t" by simp
    from fixed [OF this] d show ?thesis by simp
  qed
  have mm: "wlanguage (word r) = js ''ine-pro''"
    if "r \<in> set (mergeConnections toLowerCase cs sw)" and "wtext (word r) = t" for r
  proof -
    from merge_origin [OF that(1)] obtain d where d: "r = fixPieLanguage toLowerCase d" by blast
    with that(2) have "wtext (word d) = t" by simp
    from fixed [OF this] d show ?thesis by simp
  qed
  show ?thesis
    using st fixed valid dd mm
    by (simp add: unrelated_star_left unrelated_star_right suspicious_star_left suspicious_star_right)
qed

text \<open>
  The root \<open>*wed-\<close>, reported by etymonline for the query \<open>water\<close> with the language \<open>en\<close>: no
  filter rejects it and the merged connection has the language \<open>ine-pro\<close>.
\<close>

theorem proto_exemption_witness:
  "startsWith (js ''*wed-'') (js ''*'')
   \<and> \<not> areSemanticallyUnrelated toLowerCase (js ''water'') (js ''*wed-'')
   \<and> \<not> areSemanticallySuspicious (js ''*wed-'') (js ''water'')
   \<and> mergeConnections toLowerCase
        [stampedConnection ''*wed-'' ''en'' ''etymology'' (Finite 0.9) ''high'' ''etymonline.com'']
        \<lparr>wtext = js ''water'', wlanguage = js ''en''\<rparr>
       = [stampedConnection ''*wed-'' ''ine-pro'' ''etymology'' (Finite 0.9) ''high'' ''etymonline.com'']"
proof -
  have h: "startsWith (js ''*wed-'') (js ''*'')" by code_simp
  have m: "mergeConnections toLowerCase
        [stampedConnection ''*wed-'' ''en'' ''etymology'' (Finite 0.9) ''high'' ''etymonline.com'']
        \<lparr>wtext = js ''water'', wlanguage = js ''en''\<rparr>
       = [stampedConnection ''*wed-'' ''ine-pro'' ''etymology'' (Finite 0.9) ''high'' ''etymonline.com'']"
    by code_simp
  from proto_exemption [OF h, of toLowerCase "js ''water''"]
  have "\<not> areSemanticallyUnrelated toLowerCase (js ''water'') (js ''*wed-'')
      \<and> \<not> areSemanticallySuspicious (js ''*wed-'') (js ''water'')"
    by blast
  with h m show ?thesis by blast
qed

text \<open>
  Claim C7, as amended. \<open>normalizeEtymologyKey\<close> is idempotent on every input that contains a
  reconstructed-root token (\<open>*\<close> followed by letters of the root class), and on every input
  whose key contains neither white space nor such a token. On a label of several words each
  application strips one more leading word.
\<close>

theorem key_idempotent_on_single_tokens:
  assumes "pieRootMatch (trim s) \<noteq> None
           \<or> (\<not> list_ex isWhiteSpace (normalizeEtymologyKey s)
               \<and> pieRootMatch (normalizeEtymologyKey s) = None)"
  shows "normalizeEtymologyKey (normalizeEtymologyKey s) = normalizeEtymologyKey s"
proof (cases "s = []")
  case True
  then show ?thesis by (simp add: normalizeEtymologyKey_def)
next
  case ne: False
  show ?thesis
  proof (cases "pieRootMatch (trim s)")
    case (Some m)
    then have k: "normalizeEtymologyKey s = 42 # toLowerCase m"
      using ne by (simp add: normalizeEtymologyKey_def)
    from pieRootMatch_Some [OF Some] show ?thesis
      unfolding k by (simp add: key_of_root_token)
  next
    case None
    with assms have nw: "\<forall>c \<in> set (normalizeEtymologyKey s). \<not> isWhiteSpace c"
      and np: "pieRootMatch (normalizeEtymologyKey s) = None"
      by (simp_all add: list_ex_iff)
    from key_shape [OF ne None] show ?thesis
      using key_fixed [OF nw np] by blast
  qed
qed

text \<open>
  A label with a root token, and the label \<open>Latin aqua\<close> whose key \<open>aqua\<close> is a single word.
\<close>

theorem key_idempotent_on_single_tokens_witness:
  "pieRootMatch (trim (js ''from PIE root *Wed- (1)'')) \<noteq> None
   \<and> normalizeEtymologyKey (js ''from PIE root *Wed- (1)'') = js ''*wed-''
   \<and> normalizeEtymologyKey (normalizeEtymologyKey (js ''from PIE root *Wed- (1)''))
       = normalizeEtymologyKey (js ''from PIE root *Wed- (1)'')
   \<and> \<not> list_ex isWhiteSpace (normalizeEtymologyKey (js ''Latin aqua.''))
   \<and> pieRootMatch (normalizeEtymologyKey (js ''Latin aqua.'')) = None
   \<and> normalizeEtymologyKey (js ''Latin aqua.'') = js ''aqua''
   \<and> normalizeEtymologyKey (normalizeEtymologyKey (js ''Latin aqua.''))
       = normalizeEtymologyKey (js ''Latin aqua.'')"
proof -
  have a: "pieRootMatch (trim (js ''from PIE root *Wed- (1)'')) \<noteq> None" by code_simp
  have b: "normalizeEtymologyKey (js ''from PIE root *Wed- (1)'') = js ''*wed-''" by code_simp
  have c: "\<not> list_ex isWhiteSpace (normalizeEtymologyKey (js ''Latin aqua.''))" by code_simp
  have d: "pieRootMatch (normalizeEtymologyKey (js ''Latin aqua.'')) = None" by code_simp
  have e: "normalizeEtymologyKey (js ''Latin aqua.'') = js ''aqua''" by code_simp
  have 1: "normalizeEtymologyKey (normalizeEtymologyKey (js ''from PIE root *Wed- (1)''))
       = normalizeEtymologyKey (js ''from PIE root *Wed- (1)'')"
    by (rule key_idempotent_on_single_tokens) (rule disjI1, rule a)
  have 2: "normalizeEtymologyKey (normalizeEtymologyKey (js ''Latin aqua.''))
       = normalizeEtymologyKey (js ''Latin aqua.'')"
    by (rule key_idempotent_on_single_tokens) (rule disjI2, rule conjI, rule c, rule d)
  from a b 1 c d e 2 show ?thesis by blast
qed

text \<open>
  The claim as stated fails: the key of \<open>Old High German wazzar\<close> is \<open>german wazzar\<close>, and the
  key of that is \<open>wazzar\<close>.
\<close>

theorem key_not_idempotent:
  "normalizeEtymologyKey (js ''Old High German wazzar'') = js ''german wazzar''
   \<and> normalizeEtymologyKey (normalizeEtymologyKey (js ''Old High German wazzar'')) = js ''wazzar''"
  by code_simp




text \<open>
  Claim C9. The index holds \<open>wet\<close> and \<open>water\<close> under the root key \<open>*wed-\<close>, both recorded with
  confidence 0.9, and the pair passes \<open>isValidCrossReferenceConnection\<close>; the claim expects
  one synthesized cognate \<open>wet\<close> of confidence 0.81 for the query \<open>water\<close>. The enhancement
  step returns the connection of the page alone: a potential cognate gets the confidence
  \<open>min 0.75 0.9\<close>, and the selection asks for a confidence above 0.75.
\<close>

theorem cross_reference_cognate_missing:
  "map weWord (entriesOf (etymologyDatabase
       (fst (recordAndEnhance (fst (recordAndEnhance emptyIndex (js ''wet'') [pieWed])) (js ''water'') [pieWed])))
       (js ''*wed-'')) = [js ''wet'', js ''water'']
   \<and> map weConfidence (entriesOf (etymologyDatabase
       (fst (recordAndEnhance (fst (recordAndEnhance emptyIndex (js ''wet'') [pieWed])) (js ''water'') [pieWed])))
       (js ''*wed-'')) = [0.9, 0.9]
   \<and> isValidCrossReferenceConnection (js ''water'') (js ''wet'') (js ''PIE *wed-'')
   \<and> min ((0.9::real) * 0.9) 0.85 = 0.81
   \<and> snd (recordAndEnhance (fst (recordAndEnhance emptyIndex (js ''wet'') [pieWed])) (js ''water'') [pieWed])
       = [pieWed]"
  by code_simp

text \<open>
  Claim C10. Every connection that the rule-based cognate generator contributes comes from
  the direct concept-table lookup. A cognate passes the filter only with a confidence of at
  least 0.85 and with a semantic field and a concept; a candidate of the sound-change rules
  has the confidence 0.75 and neither of the two, so the filter rejects it; both for any
  case folding. In the result of \<open>findEtymologicalConnections\<close>, in every reachable state of
  the result cache, the connections of the generator are those without a source tag
  (returned as \<open>unknown\<close>): each has the word, the language and the confidence 0.95 of a
  direct cognate of the normalized source word of the result. For a case folding other than
  \<open>toLowerCase\<close> the same holds, with the language \<open>ine-pro\<close> in place of the cognate's in case
  the folding should make the cognate start with \<open>*\<close>.
\<close>

theorem cognates_come_from_direct_lookup:
  "(\<forall>g \<in> set (validCognates lc nw nl).
       g \<in> set (findDirectCognates lc (trim (lc nw)) nl cognateLanguages)
     \<and> g \<notin> set (applySoundChangeRules (trim (lc nw)) nl cognateLanguages)
     \<and> cconfidence g \<ge> 0.85 \<and> semanticField g \<noteq> None \<and> concept g \<noteq> None)
   \<and> (\<forall>g \<in> set (applySoundChangeRules x l ls).
       cconfidence g = 0.75 \<and> semanticField g = None \<and> concept g = None
     \<and> \<not> isValidCognate lc nw nl g)
   \<and> (reachableCache toLowerCase cache
       \<and> fst (findEtymologicalConnections toLowerCase cache w language bypass results) = Inr r
       \<longrightarrow> (\<forall>c \<in> set (dataConnections r). cnSource c = js ''unknown''
            \<longrightarrow> (\<exists>g \<in> set (findDirectCognates toLowerCase
                              (trim (toLowerCase (wtext (dataSourceWord r))))
                              (wlanguage (dataSourceWord r)) cognateLanguages).
                   wtext (cnWord c) = cword g
                 \<and> wlanguage (cnWord c) = clanguage g
                 \<and> cnType c = js ''cognate''
                 \<and> cnConfidence c = Finite 0.95
                 \<and> semanticField g \<noteq> None \<and> concept g \<noteq> None)))
   \<and> (reachableCache lc cache'
       \<and> fst (findEtymologicalConnections lc cache' w' language' bypass' results') = Inr r'
       \<longrightarrow> (\<forall>c \<in> set (dataConnections r'). cnSource c = js ''unknown''
            \<longrightarrow> (\<exists>g \<in> set (findDirectCognates lc (trim (lc (wtext (dataSourceWord r'))))
                              (wlanguage (dataSourceWord r')) cognateLanguages).
                   wtext (cnWord c) = cword g
                 \<and> wlanguage (cnWord c)
                     = (if startsWith (lc (cword g)) (js ''*'') then js ''ine-pro'' else clanguage g)
                 \<and> cnType c = js ''cognate''
                 \<and> cnConfidence c = Finite 0.95
                 \<and> semanticField g \<noteq> None \<and> concept g \<noteq> None)))"
proof -
  have general: "\<exists>g \<in> set (findDirectCognates f (trim (f (wtext (dataSourceWord q))))
                              (wlanguage (dataSourceWord q)) cognateLanguages).
                   wtext (cnWord c) = cword g
                 \<and> wlanguage (cnWord c)
                     = (if startsWith (f (cword g)) (js ''*'') then js ''ine-pro'' else clanguage g)
                 \<and> cnType c = js ''cognate''
                 \<and> cnConfidence c = Finite 0.95
                 \<and> semanticField g \<noteq> None \<and> concept g \<noteq> None"
    if rc: "reachableCache f ch"
      and e: "fst (findEtymologicalConnections f ch v lg bp rs) = Inr q"
      and c: "c \<in> set (dataConnections q)" and u: "cnSource c = js ''unknown''"
    for f ch v lg bp rs q c
  proof -
    from returned_computed [OF rc e] obtain a b fetches
      where k: "lookupConnections f a b fetches = Inr q" by blast
    from computed_origin [OF k c] obtain cs d
      where cs: "collectConnections f (dataSourceWord q)
                   (settledValue (wiktionaryResult fetches)) (settledValue (dictionaryResult fetches))
                   (settledValue (etymonlineResult fetches)) = Inr cs"
        and d: "d \<in> set cs"
        and cw: "cnWord c = word (fixPieLanguage f d)"
        and ct: "cnType c = rtype (relationship d)"
        and cc: "cnConfidence c = confidence (relationship d)"
        and src: "cnSource c = (case source (relationship d) of None \<Rightarrow> js ''unknown''
                               | Some s \<Rightarrow> orElse s (js ''unknown''))"
      by blast
    from collect_source [OF cs d] src u
    obtain g where g: "g \<in> set (validCognates f (wtext (dataSourceWord q)) (wlanguage (dataSourceWord q)))"
      and dg: "d = cognateConnection g" and c95: "confidence (relationship d) = Finite 0.95"
      by (auto simp: orElse_def)
    note dir = validCognates_direct(1) [OF g]
    note shape = directCognate_shape [OF dir]
    have 1: "wtext (cnWord c) = cword g"
      using cw dg by (simp add: cognateConnection_def)
    have 2: "wlanguage (cnWord c)
               = (if startsWith (f (cword g)) (js ''*'') then js ''ine-pro'' else clanguage g)"
      using cw dg by (simp add: cognateConnection_def fixPieLanguage_def comparisonText_def)
    have 3: "cnType c = js ''cognate''"
      using ct dg by (simp add: cognateConnection_def)
    have 4: "cnConfidence c = Finite 0.95"
      using cc c95 by simp
    from dir 1 2 3 4 shape show ?thesis by blast
  qed
  show ?thesis
  proof (intro conjI ballI impI)
    fix g assume g: "g \<in> set (validCognates lc nw nl)"
    note d = validCognates_direct [OF g]
    from d(1) show "g \<in> set (findDirectCognates lc (trim (lc nw)) nl cognateLanguages)" .
    from d(2) show "g \<notin> set (applySoundChangeRules (trim (lc nw)) nl cognateLanguages)" .
    from d(3) show "cconfidence g \<ge> 0.85" .
    from directCognate_shape [OF d(1)] show "semanticField g \<noteq> None" by simp
    from directCognate_shape [OF d(1)] show "concept g \<noteq> None" by simp
  next
    fix g assume g: "g \<in> set (applySoundChangeRules x l ls)"
    from soundChange_shape [OF g] show "cconfidence g = 0.75" by simp
    from soundChange_shape [OF g] show "semanticField g = None" by simp
    from soundChange_shape [OF g] show "concept g = None" by simp
    from soundChange_rejected [OF g] show "\<not> isValidCognate lc nw nl g" .
  next
    fix c
    assume h: "reachableCache toLowerCase cache
       \<and> fst (findEtymologicalConnections toLowerCase cache w language bypass results) = Inr r"
      and c: "c \<in> set (dataConnections r)" and u: "cnSource c = js ''unknown''"
    from h have rc: "reachableCache toLowerCase cache"
      and e: "fst (findEtymologicalConnections toLowerCase cache w language bypass results) = Inr r"
      by simp_all
    from general [OF rc e c u] obtain g
      where g: "g \<in> set (findDirectCognates toLowerCase
                              (trim (toLowerCase (wtext (dataSourceWord r))))
                              (wlanguage (dataSourceWord r)) cognateLanguages)"
        and p: "wtext (cnWord c) = cword g"
          "wlanguage (cnWord c)
             = (if startsWith (toLowerCase (cword g)) (js ''*'') then js ''ine-pro'' else clanguage g)"
          "cnType c = js ''cognate''" "cnConfidence c = Finite 0.95"
          "semanticField g \<noteq> None" "concept g \<noteq> None"
      by blast
    from directCognate_plain [OF g] have "\<not> startsWith (toLowerCase (cword g)) (js ''*'')"
      by (simp add: startsWith_star_lower)
    with p(2) have "wlanguage (cnWord c) = clanguage g" by simp
    with g p show "\<exists>g \<in> set (findDirectCognates toLowerCase
                              (trim (toLowerCase (wtext (dataSourceWord r))))
                              (wlanguage (dataSourceWord r)) cognateLanguages).
                   wtext (cnWord c) = cword g
                 \<and> wlanguage (cnWord c) = clanguage g
                 \<and> cnType c = js ''cognate''
                 \<and> cnConfidence c = Finite 0.95
                 \<and> semanticField g \<noteq> None \<and> concept g \<noteq> None"
      by blast
  next
    fix c
    assume h: "reachableCache lc cache'
       \<and> fst (findEtymologicalConnections lc cache' w' language' bypass' results') = Inr r'"
      and c: "c \<in> set (dataConnections r')" and u: "cnSource c = js ''unknown''"
    from h have rc: "reachableCache lc cache'"
      and e: "fst (findEtymologicalConnections lc cache' w' language' bypass' results') = Inr r'"
      by simp_all
    from general [OF rc e c u]
    show "\<exists>g \<in> set (findDirectCognates lc (trim (lc (wtext (dataSourceWord r'))))
                              (wlanguage (dataSourceWord r')) cognateLanguages).
                   wtext (cnWord c) = cword g
                 \<and> wlanguage (cnWord c)
                     = (if startsWith (lc (cword g)) (js ''*'') then js ''ine-pro'' else clanguage g)
                 \<and> cnType c = js ''cognate''
                 \<and> cnConfidence c = Finite 0.95
                 \<and> semanticField g \<noteq> None \<and> concept g \<noteq> None" .
  qed
qed

text \<open>
  The query \<open>water\<close> without any other source: the generator finds seven direct cognates and
  sound-change candidates such as \<open>vater\<close>; the two connections that are returned, \<open>eau\<close> and
  \<open>wasser\<close>, are direct cognates, and \<open>vater\<close> is not among the valid cognates.
\<close>

theorem cognates_come_from_direct_lookup_witness:
  "map cword (validCognates toLowerCase (js ''water'') (js ''en'')) = [js ''eau'', js ''wasser'']
   \<and> map cword (findDirectCognates toLowerCase (js ''water'') (js ''en'') cognateLanguages)
       = [js ''agua'', js ''eau'', js ''wasser'', js ''acqua'', js ''aqua'',
          [957, 949, 961, 972], [1074, 1086, 1076, 1072]]
   \<and> js ''vater'' \<in> cword ` set (applySoundChangeRules (js ''water'') (js ''en'') cognateLanguages)
   \<and> js ''vater'' \<notin> cword ` set (validCognates toLowerCase (js ''water'') (js ''en''))
   \<and> list_all (\<lambda>g. 0.85 \<le> cconfidence g \<and> semanticField g \<noteq> None \<and> concept g \<noteq> None)
        (validCognates toLowerCase (js ''water'') (js ''en''))
   \<and> map cnSource (case fst (findEtymologicalConnections toLowerCase Map.empty (js ''water'') None False
                              (fetched None None None)) of
                     Inl err \<Rightarrow> [] | Inr r \<Rightarrow> dataConnections r)
       = [js ''unknown'', js ''unknown'']"
proof -
  have a: "map cword (validCognates toLowerCase (js ''water'') (js ''en'')) = [js ''eau'', js ''wasser'']"
    by code_simp
  have b: "map cword (findDirectCognates toLowerCase (js ''water'') (js ''en'') cognateLanguages)
       = [js ''agua'', js ''eau'', js ''wasser'', js ''acqua'', js ''aqua'',
          [957, 949, 961, 972], [1074, 1086, 1076, 1072]]"
    by code_simp
  have c: "js ''vater'' \<in> cword ` set (applySoundChangeRules (js ''water'') (js ''en'') cognateLanguages)"
    by code_simp
  have d: "js ''vater'' \<notin> cword ` set (validCognates toLowerCase (js ''water'') (js ''en''))"
    unfolding set_map [symmetric] a by simp
  have e: "map cnSource (case fst (findEtymologicalConnections toLowerCase Map.empty (js ''water'') None False
                              (fetched None None None)) of
                     Inl err \<Rightarrow> [] | Inr r \<Rightarrow> dataConnections r)
       = [js ''unknown'', js ''unknown'']"
    by code_simp
  from cognates_come_from_direct_lookup [of toLowerCase "js ''water''" "js ''en''"]
  have "\<forall>g \<in> set (validCognates toLowerCase (js ''water'') (js ''en'')).
          cconfidence g \<ge> 0.85 \<and> semanticField g \<noteq> None \<and> concept g \<noteq> None"
    by blast
  then have f: "list_all (\<lambda>g. 0.85 \<le> cconfidence g \<and> semanticField g \<noteq> None \<and> concept g \<noteq> None)
        (validCognates toLowerCase (js ''water'') (js ''en''))"
    by (simp add: list_all_iff)
  from a b c d f e show ?thesis by blast
qed

end
